theory Spec2Isabelle
  imports Main
begin

section \<open>Host platform: JSON values, JSON text and dates\<close>

text \<open>
  The storage engine of StudioFlow (\<^verbatim>\<open>node-storage.ts\<close>, \<^verbatim>\<open>storage-utils.ts\<close>) keeps its
  document as JSON text in files. The functions of the repository are embedded below over
  a model of the JavaScript values that \<^verbatim>\<open>JSON.parse\<close> can return. The modelled fragment:
  numbers are integers, texts are ASCII, property names are not array indices. Text outside
  the fragment (fractions, exponents, escapes of code points above 255) is rejected by the model's
  parser, where the platform would accept it.
\<close>

datatype json =
    JNull
  | JBool bool
  | JNum int
  | JStr string
  | JArr "json list"
  | JObj "(string \<times> json) list"

text \<open>Property access \<^verbatim>\<open>v.k\<close> on a value that is neither null nor undefined;
  \<open>None\<close> is JavaScript's \<^verbatim>\<open>undefined\<close>.\<close>

fun get_prop :: "json \<Rightarrow> string \<Rightarrow> json option" where
  "get_prop (JObj kvs) k = map_of kvs k"
| "get_prop _ k = None"

text \<open>Optional chaining \<^verbatim>\<open>v?.k\<close> on a possibly undefined value.\<close>

fun opt_prop :: "json option \<Rightarrow> string \<Rightarrow> json option" where
  "opt_prop None k = None"
| "opt_prop (Some JNull) k = None"
| "opt_prop (Some v) k = get_prop v k"

text \<open>JavaScript truthiness of a possibly undefined value.\<close>

fun truthy :: "json option \<Rightarrow> bool" where
  "truthy None = False"
| "truthy (Some JNull) = False"
| "truthy (Some (JBool b)) = b"
| "truthy (Some (JNum n)) = (n \<noteq> 0)"
| "truthy (Some (JStr s)) = (s \<noteq> [])"
| "truthy (Some (JArr xs)) = True"
| "truthy (Some (JObj kvs)) = True"

text \<open>\<^verbatim>\<open>typeof v === 'object'\<close> for a truthy value, \<^verbatim>\<open>typeof v === 'number'\<close> and
  \<^verbatim>\<open>Array.isArray(v)\<close>.\<close>

fun is_object :: "json option \<Rightarrow> bool" where
  "is_object (Some (JArr xs)) = True"
| "is_object (Some (JObj kvs)) = True"
| "is_object _ = False"

fun is_number :: "json option \<Rightarrow> bool" where
  "is_number (Some (JNum n)) = True"
| "is_number _ = False"

fun isArray :: "json option \<Rightarrow> bool" where
  "isArray (Some (JArr xs)) = True"
| "isArray _ = False"

text \<open>Writing a property in an object literal: an existing key keeps its place, a new key
  goes last.\<close>

fun obj_set :: "(string \<times> json) list \<Rightarrow> string \<Rightarrow> json \<Rightarrow> (string \<times> json) list" where
  "obj_set [] k v = [(k, v)]"
| "obj_set ((k', v') # kvs) k v = (if k' = k then (k, v) # kvs else (k', v') # obj_set kvs k v)"

text \<open>The own enumerable properties an object spread \<^verbatim>\<open>{...v}\<close> copies. An array spreads
  its indices, every other value (undefined, null, a number, a boolean) spreads nothing; a
  text would spread its characters, which no caller below passes on to a file.\<close>

fun index_from :: "nat \<Rightarrow> 'a list \<Rightarrow> (nat \<times> 'a) list" where
  "index_from i [] = []"
| "index_from i (x # xs) = (i, x) # index_from (Suc i) xs"

text \<open>\<^verbatim>\<open>Number.prototype.toString\<close> in base 10 and in base 16, for a non-negative integer.\<close>

function toString10 :: "int \<Rightarrow> string" where
  "toString10 n =
     (if n < 10 then [''0123456789'' ! nat n]
      else toString10 (n div 10) @ [''0123456789'' ! nat (n mod 10)])"
  by pat_completeness auto
termination
  by (relation "measure nat") auto

function toString16 :: "int \<Rightarrow> string" where
  "toString16 n =
     (if n < 16 then [''0123456789abcdef'' ! nat n]
      else toString16 (n div 16) @ [''0123456789abcdef'' ! nat (n mod 16)])"
  by pat_completeness auto
termination
  by (relation "measure nat") auto

fun spread :: "json option \<Rightarrow> (string \<times> json) list" where
  "spread (Some (JObj kvs)) = kvs"
| "spread (Some (JArr xs)) = map (\<lambda>(i, x). (toString10 (int i), x)) (index_from 0 xs)"
| "spread _ = []"

text \<open>\<^verbatim>\<open>String.prototype.padStart(n, '0')\<close>.\<close>

definition padStart :: "nat \<Rightarrow> string \<Rightarrow> string" where
  "padStart n s = replicate (n - length s) (CHR ''0'') @ s"

subsection \<open>\<^verbatim>\<open>JSON.stringify(value, null, gap)\<close>\<close>

definition quote_char :: char where
  "quote_char = CHR 0x22"

definition backslash :: char where
  "backslash = CHR 0x5C"

definition newline :: char where
  "newline = CHR 0x0A"

definition escape_char :: "char \<Rightarrow> string" where
  "escape_char c =
     (if c = quote_char then [backslash, quote_char]
      else if c = backslash then [backslash, backslash]
      else if c = CHR 0x08 then [backslash, CHR ''b'']
      else if c = CHR 0x0C then [backslash, CHR ''f'']
      else if c = CHR 0x0A then [backslash, CHR ''n'']
      else if c = CHR 0x0D then [backslash, CHR ''r'']
      else if c = CHR 0x09 then [backslash, CHR ''t'']
      else if (of_char c :: int) < 32
        then [backslash, CHR ''u'', CHR ''0'', CHR ''0''] @ padStart 2 (toString16 (of_char c))
      else [c])"

definition quote :: "string \<Rightarrow> string" where
  "quote s = quote_char # concat (map escape_char s) @ [quote_char]"

definition int_text :: "int \<Rightarrow> string" where
  "int_text n = (if n < 0 then CHR ''-'' # toString10 (- n) else toString10 n)"

text \<open>The line break and indentation between the members of an array or object: nothing
  when the gap is empty.\<close>

definition break :: "nat \<Rightarrow> nat \<Rightarrow> string" where
  "break gap ind = (if gap = 0 then [] else newline # replicate ind (CHR '' ''))"

definition colon :: "nat \<Rightarrow> string" where
  "colon gap = (if gap = 0 then '':'' else '': '')"

fun serialize :: "nat \<Rightarrow> nat \<Rightarrow> json \<Rightarrow> string"
  and serialize_elems :: "nat \<Rightarrow> nat \<Rightarrow> json list \<Rightarrow> string"
  and serialize_members :: "nat \<Rightarrow> nat \<Rightarrow> (string \<times> json) list \<Rightarrow> string"
where
  "serialize gap ind JNull = ''null''"
| "serialize gap ind (JBool b) = (if b then ''true'' else ''false'')"
| "serialize gap ind (JNum n) = int_text n"
| "serialize gap ind (JStr s) = quote s"
| "serialize gap ind (JArr []) = ''[]''"
| "serialize gap ind (JArr (x # xs)) =
     ''['' @ break gap (ind + gap) @ serialize_elems gap (ind + gap) (x # xs)
       @ break gap ind @ '']''"
| "serialize gap ind (JObj []) = ''{}''"
| "serialize gap ind (JObj (kv # kvs)) =
     ''{'' @ break gap (ind + gap) @ serialize_members gap (ind + gap) (kv # kvs)
       @ break gap ind @ ''}''"
| "serialize_elems gap ind [] = []"
| "serialize_elems gap ind [x] = serialize gap ind x"
| "serialize_elems gap ind (x # y # ys) =
     serialize gap ind x @ '','' @ break gap ind @ serialize_elems gap ind (y # ys)"
| "serialize_members gap ind [] = []"
| "serialize_members gap ind [(k, v)] = quote k @ colon gap @ serialize gap ind v"
| "serialize_members gap ind ((k, v) # kv # kvs) =
     quote k @ colon gap @ serialize gap ind v @ '','' @ break gap ind
       @ serialize_members gap ind (kv # kvs)"

definition JSON_stringify :: "nat \<Rightarrow> json \<Rightarrow> string" where
  "JSON_stringify gap v = serialize gap 0 v"

subsection \<open>\<^verbatim>\<open>JSON.parse\<close>\<close>

datatype token =
    TLBrace | TRBrace | TLBrack | TRBrack | TColon | TComma
  | TString string | TNumber int | TTrue | TFalse | TNull

datatype lexmode =
    LStart
  | LString string
  | LEscape string
  | LUnicode string "int list"
  | LKeyword string token
  | LMinus
  | LZero
  | LDigits bool int

definition is_ws :: "char \<Rightarrow> bool" where
  "is_ws c = (c = CHR '' '' \<or> c = CHR 0x0A \<or> c = CHR 0x0D \<or> c = CHR 0x09)"

definition digit_of :: "char \<Rightarrow> int option" where
  "digit_of c =
     (let n = (of_char c :: int) in if 48 \<le> n \<and> n \<le> 57 then Some (n - 48) else None)"

definition hex_of :: "char \<Rightarrow> int option" where
  "hex_of c =
     (let n = (of_char c :: int) in
      if 48 \<le> n \<and> n \<le> 57 then Some (n - 48)
      else if 97 \<le> n \<and> n \<le> 102 then Some (n - 87)
      else if 65 \<le> n \<and> n \<le> 70 then Some (n - 55)
      else None)"

text \<open>What may follow a number literal directly: white space or the punctuation that
  ends a member.\<close>

definition after_number :: "char \<Rightarrow> token list option" where
  "after_number c =
     (if is_ws c then Some []
      else if c = CHR '','' then Some [TComma]
      else if c = CHR '']'' then Some [TRBrack]
      else if c = CHR ''}'' then Some [TRBrace]
      else None)"

definition unescape :: "char \<Rightarrow> char option" where
  "unescape c =
     (if c = quote_char \<or> c = backslash \<or> c = CHR ''/'' then Some c
      else if c = CHR ''b'' then Some (CHR 0x08)
      else if c = CHR ''f'' then Some (CHR 0x0C)
      else if c = CHR ''n'' then Some (CHR 0x0A)
      else if c = CHR ''r'' then Some (CHR 0x0D)
      else if c = CHR ''t'' then Some (CHR 0x09)
      else None)"

definition signed :: "bool \<Rightarrow> int \<Rightarrow> int" where
  "signed neg n = (if neg then - n else n)"

fun lex :: "lexmode \<Rightarrow> string \<Rightarrow> token list option" where
  "lex LStart [] = Some []"
| "lex LZero [] = Some [TNumber 0]"
| "lex (LDigits neg n) [] = Some [TNumber (signed neg n)]"
| "lex (LString acc) [] = None"
| "lex (LEscape acc) [] = None"
| "lex (LUnicode acc hs) [] = None"
| "lex (LKeyword rest t) [] = None"
| "lex LMinus [] = None"
| "lex LStart (c # cs) =
     (if is_ws c then lex LStart cs
      else if c = CHR ''{'' then map_option (Cons TLBrace) (lex LStart cs)
      else if c = CHR ''}'' then map_option (Cons TRBrace) (lex LStart cs)
      else if c = CHR ''['' then map_option (Cons TLBrack) (lex LStart cs)
      else if c = CHR '']'' then map_option (Cons TRBrack) (lex LStart cs)
      else if c = CHR '':'' then map_option (Cons TColon) (lex LStart cs)
      else if c = CHR '','' then map_option (Cons TComma) (lex LStart cs)
      else if c = quote_char then lex (LString []) cs
      else if c = CHR ''t'' then lex (LKeyword ''rue'' TTrue) cs
      else if c = CHR ''f'' then lex (LKeyword ''alse'' TFalse) cs
      else if c = CHR ''n'' then lex (LKeyword ''ull'' TNull) cs
      else if c = CHR ''-'' then lex LMinus cs
      else if c = CHR ''0'' then lex LZero cs
      else (case digit_of c of None \<Rightarrow> None | Some d \<Rightarrow> lex (LDigits False d) cs))"
| "lex (LString acc) (c # cs) =
     (if c = quote_char then map_option (Cons (TString (rev acc))) (lex LStart cs)
      else if c = backslash then lex (LEscape acc) cs
      else if (of_char c :: int) < 32 then None
      else lex (LString (c # acc)) cs)"
| "lex (LEscape acc) (c # cs) =
     (if c = CHR ''u'' then lex (LUnicode acc []) cs
      else (case unescape c of None \<Rightarrow> None | Some e \<Rightarrow> lex (LString (e # acc)) cs))"
| "lex (LUnicode acc hs) (c # cs) =
     (case hex_of c of
        None \<Rightarrow> None
      | Some h \<Rightarrow>
          (case hs of
             [a, b, d] \<Rightarrow>
               (if a = 0 \<and> b = 0 then lex (LString (char_of (d * 16 + h) # acc)) cs else None)
           | _ \<Rightarrow> lex (LUnicode acc (hs @ [h])) cs))"
| "lex (LKeyword rest t) (c # cs) =
     (case rest of
        [] \<Rightarrow> None
      | [e] \<Rightarrow> (if c = e then map_option (Cons t) (lex LStart cs) else None)
      | e # es \<Rightarrow> (if c = e then lex (LKeyword es t) cs else None))"
| "lex LMinus (c # cs) =
     (if c = CHR ''0'' then lex LZero cs
      else (case digit_of c of None \<Rightarrow> None | Some d \<Rightarrow> lex (LDigits True d) cs))"
| "lex LZero (c # cs) =
     (case after_number c of
        None \<Rightarrow> None
      | Some ts \<Rightarrow> map_option (\<lambda>r. TNumber 0 # ts @ r) (lex LStart cs))"
| "lex (LDigits neg n) (c # cs) =
     (case digit_of c of
        Some d \<Rightarrow> lex (LDigits neg (10 * n + d)) cs
      | None \<Rightarrow>
          (case after_number c of
             None \<Rightarrow> None
           | Some ts \<Rightarrow> map_option (\<lambda>r. TNumber (signed neg n) # ts @ r) (lex LStart cs)))"

text \<open>The parser proper: a pushdown automaton over the tokens. A frame is an array or
  object under construction; \<open>PSep v\<close> is the state after the value \<open>v\<close> is complete.
  A repeated key overwrites the earlier member in place, as property assignment does.\<close>

datatype frame =
    FArr "json list"
  | FObj "(string \<times> json) list"
  | FObjK "(string \<times> json) list" string

datatype pmode = PVal | PValOrEnd | PKey | PKeyOrEnd | PColon | PSep json

fun scalar :: "token \<Rightarrow> json option" where
  "scalar (TString s) = Some (JStr s)"
| "scalar (TNumber n) = Some (JNum n)"
| "scalar TTrue = Some (JBool True)"
| "scalar TFalse = Some (JBool False)"
| "scalar TNull = Some JNull"
| "scalar _ = None"

fun pda :: "pmode \<Rightarrow> frame list \<Rightarrow> token list \<Rightarrow> json option" where
  "pda (PSep v) [] [] = Some v"
| "pda m st [] = None"
| "pda PVal st (t # ts) =
     (if t = TLBrack then pda PValOrEnd (FArr [] # st) ts
      else if t = TLBrace then pda PKeyOrEnd (FObj [] # st) ts
      else (case scalar t of None \<Rightarrow> None | Some v \<Rightarrow> pda (PSep v) st ts))"
| "pda PValOrEnd st (t # ts) =
     (if t = TRBrack then
        (case st of FArr acc # st' \<Rightarrow> pda (PSep (JArr (rev acc))) st' ts | _ \<Rightarrow> None)
      else if t = TLBrack then pda PValOrEnd (FArr [] # st) ts
      else if t = TLBrace then pda PKeyOrEnd (FObj [] # st) ts
      else (case scalar t of None \<Rightarrow> None | Some v \<Rightarrow> pda (PSep v) st ts))"
| "pda PKeyOrEnd st (t # ts) =
     (case (t, st) of
        (TRBrace, FObj acc # st') \<Rightarrow> pda (PSep (JObj acc)) st' ts
      | (TString k, FObj acc # st') \<Rightarrow> pda PColon (FObjK acc k # st') ts
      | _ \<Rightarrow> None)"
| "pda PKey st (t # ts) =
     (case (t, st) of
        (TString k, FObj acc # st') \<Rightarrow> pda PColon (FObjK acc k # st') ts
      | _ \<Rightarrow> None)"
| "pda PColon st (t # ts) = (if t = TColon then pda PVal st ts else None)"
| "pda (PSep v) st (t # ts) =
     (case (t, st) of
        (TComma, FArr acc # st') \<Rightarrow> pda PVal (FArr (v # acc) # st') ts
      | (TRBrack, FArr acc # st') \<Rightarrow> pda (PSep (JArr (rev (v # acc)))) st' ts
      | (TComma, FObjK acc k # st') \<Rightarrow> pda PKey (FObj (obj_set acc k v) # st') ts
      | (TRBrace, FObjK acc k # st') \<Rightarrow> pda (PSep (JObj (obj_set acc k v))) st' ts
      | _ \<Rightarrow> None)"

text \<open>\<open>None\<close> is the \<^verbatim>\<open>SyntaxError\<close> that \<^verbatim>\<open>JSON.parse\<close> throws.\<close>

definition JSON_parse :: "string \<Rightarrow> json option" where
  "JSON_parse s = (case lex LStart s of None \<Rightarrow> None | Some ts \<Rightarrow> pda PVal [] ts)"

subsection \<open>Dates\<close>

text \<open>
  An instant is the number of milliseconds since the epoch, as \<^verbatim>\<open>Date.prototype.getTime\<close>
  gives it. The process runs in the UTC time zone, so the local fields that
  \<^verbatim>\<open>formatTimestampForFilename\<close> reads are the UTC fields, without daylight saving; years are
  0000 to 9999. The civil date of a day number is computed with the usual era arithmetic
  of the proleptic Gregorian calendar.
\<close>

definition days_from_civil :: "int \<Rightarrow> int \<Rightarrow> int \<Rightarrow> int" where
  "days_from_civil y m d =
     (let y' = (if m \<le> 2 then y - 1 else y);
          era = y' div 400;
          yoe = y' - era * 400;
          doy = (153 * (if m > 2 then m - 3 else m + 9) + 2) div 5 + d - 1;
          doe = yoe * 365 + yoe div 4 - yoe div 100 + doy
      in era * 146097 + doe - 719468)"

definition civil_from_days :: "int \<Rightarrow> int \<times> int \<times> int" where
  "civil_from_days z0 =
     (let z = z0 + 719468;
          era = z div 146097;
          doe = z - era * 146097;
          yoe = (doe - doe div 1460 + doe div 36524 - doe div 146096) div 365;
          doy = doe - (365 * yoe + yoe div 4 - yoe div 100);
          mp = (5 * doy + 2) div 153;
          d = doy - (153 * mp + 2) div 5 + 1;
          m = (if mp < 10 then mp + 3 else mp - 9);
          y = yoe + era * 400
      in (if m \<le> 2 then y + 1 else y, m, d))"

text \<open>A non-negative field, zero-padded: \<^verbatim>\<open>String(n).padStart(w, '0')\<close>.\<close>

definition pad :: "nat \<Rightarrow> int \<Rightarrow> string" where
  "pad w n = padStart w (toString10 n)"

definition toISOString :: "int \<Rightarrow> string" where
  "toISOString t =
     (let (y, m, d) = civil_from_days (t div 86400000);
          r = t mod 86400000
      in pad 4 y @ ''-'' @ pad 2 m @ ''-'' @ pad 2 d @ ''T''
         @ pad 2 (r div 3600000) @ '':'' @ pad 2 (r mod 3600000 div 60000) @ '':''
         @ pad 2 (r mod 60000 div 1000) @ ''.'' @ pad 3 (r mod 1000) @ ''Z'')"

text \<open>\<^verbatim>\<open>formatTimestampForFilename\<close> of \<^verbatim>\<open>storage-utils.ts\<close>: the year as it prints, the
  other fields padded to two digits, joined by hyphens.\<close>

definition formatTimestampForFilename :: "int \<Rightarrow> string" where
  "formatTimestampForFilename date =
     (let (year, month, day) = civil_from_days (date div 86400000);
          r = date mod 86400000
      in toString10 year @ ''-'' @ pad 2 month @ ''-'' @ pad 2 day @ ''-''
         @ pad 2 (r div 3600000) @ ''-'' @ pad 2 (r mod 3600000 div 60000) @ ''-''
         @ pad 2 (r mod 60000 div 1000))"

fun number_of_digits :: "int \<Rightarrow> string \<Rightarrow> int option" where
  "number_of_digits acc [] = Some acc"
| "number_of_digits acc (c # cs) =
     (case digit_of c of None \<Rightarrow> None | Some d \<Rightarrow> number_of_digits (10 * acc + d) cs)"

definition days_in_month :: "int \<Rightarrow> int \<Rightarrow> int" where
  "days_in_month y m =
     (if m = 2 then (if y mod 4 = 0 \<and> (y mod 100 \<noteq> 0 \<or> y mod 400 = 0) then 29 else 28)
      else if m = 4 \<or> m = 6 \<or> m = 9 \<or> m = 11 then 30 else 31)"

text \<open>\<^verbatim>\<open>new Date(text).getTime()\<close> for the one text format the engine writes, the 24
  characters of \<^verbatim>\<open>toISOString\<close>; \<open>None\<close> is \<^verbatim>\<open>NaN\<close>, the time of an invalid date.
  Every other text counts as an invalid date here.\<close>

definition Date_parse :: "string \<Rightarrow> int option" where
  "Date_parse s =
     (if length s = 24 \<and> s ! 4 = CHR ''-'' \<and> s ! 7 = CHR ''-'' \<and> s ! 10 = CHR ''T''
         \<and> s ! 13 = CHR '':'' \<and> s ! 16 = CHR '':'' \<and> s ! 19 = CHR ''.'' \<and> s ! 23 = CHR ''Z''
      then
        (case (number_of_digits 0 (take 4 s), number_of_digits 0 (take 2 (drop 5 s)),
               number_of_digits 0 (take 2 (drop 8 s)), number_of_digits 0 (take 2 (drop 11 s)),
               number_of_digits 0 (take 2 (drop 14 s)), number_of_digits 0 (take 2 (drop 17 s)),
               number_of_digits 0 (take 3 (drop 20 s))) of
           (Some y, Some m, Some d, Some h, Some mi, Some sec, Some ms) \<Rightarrow>
             (if 1 \<le> m \<and> m \<le> 12 \<and> 1 \<le> d \<and> d \<le> days_in_month y m
                 \<and> h \<le> 23 \<and> mi \<le> 59 \<and> sec \<le> 59
              then Some (days_from_civil y m d * 86400000
                         + h * 3600000 + mi * 60000 + sec * 1000 + ms)
              else None)
         | _ \<Rightarrow> None)
      else None)"

text \<open>\<^verbatim>\<open>new Date(v).getTime()\<close> for a value read from a file: a number is the time
  itself, \<^verbatim>\<open>true\<close> is 1, a text is parsed. An array or object converts through its text
  form, which is no timestamp of the format above.\<close>

fun Date_getTime :: "json \<Rightarrow> int option" where
  "Date_getTime (JStr s) = Date_parse s"
| "Date_getTime (JNum n) = Some n"
| "Date_getTime (JBool b) = Some (if b then 1 else 0)"
| "Date_getTime JNull = Some 0"
| "Date_getTime (JArr xs) = None"
| "Date_getTime (JObj kvs) = None"

text \<open>\<^verbatim>\<open>Array.prototype.sort(cmp)\<close>: a stable sort driven by the comparator; a comparator
  result of \<^verbatim>\<open>NaN\<close> (here \<open>None\<close>) counts as zero.\<close>

fun insert_by :: "('a \<Rightarrow> 'a \<Rightarrow> int option) \<Rightarrow> 'a \<Rightarrow> 'a list \<Rightarrow> 'a list" where
  "insert_by cmp x [] = [x]"
| "insert_by cmp x (y # ys) =
     (if (case cmp x y of None \<Rightarrow> 0 | Some r \<Rightarrow> r) \<le> 0 then x # y # ys
      else y # insert_by cmp x ys)"

definition sort_by :: "('a \<Rightarrow> 'a \<Rightarrow> int option) \<Rightarrow> 'a list \<Rightarrow> 'a list" where
  "sort_by cmp xs = foldr (insert_by cmp) xs []"

text \<open>\<^verbatim>\<open>String.prototype.endsWith\<close> and \<^verbatim>\<open>String.prototype.replace\<close> with a text pattern
  (the first occurrence only).\<close>

definition endsWith :: "string \<Rightarrow> string \<Rightarrow> bool" where
  "endsWith s suffix = (length suffix \<le> length s \<and> drop (length s - length suffix) s = suffix)"

fun replace_first :: "string \<Rightarrow> string \<Rightarrow> string \<Rightarrow> string" where
  "replace_first pat rep [] = (if pat = [] then rep else [])"
| "replace_first pat rep (c # cs) =
     (if take (length pat) (c # cs) = pat then rep @ drop (length pat) (c # cs)
      else c # replace_first pat rep cs)"

section \<open>Checksum and schema validation (\<^verbatim>\<open>storage-utils.ts\<close>)\<close>

text \<open>\<^verbatim>\<open>ToInt32\<close>: the wrap-around of the bit operators.\<close>

definition to_int32 :: "int \<Rightarrow> int" where
  "to_int32 x = (x + 2147483648) mod 4294967296 - 2147483648"

text \<open>The loop of the fallback hash: \<^verbatim>\<open>hash = ((hash << 5) - hash) + char; hash = hash & hash\<close>.\<close>

fun fallback_hash :: "int \<Rightarrow> string \<Rightarrow> int" where
  "fallback_hash hash [] = hash"
| "fallback_hash hash (c # cs) =
     fallback_hash (to_int32 (to_int32 (hash * 32) - hash + of_char c)) cs"

text \<open>
  \<^verbatim>\<open>calculateChecksum\<close>. The parameter \<open>subtle\<close> is the platform's \<^verbatim>\<open>crypto.subtle\<close>:
  \<open>None\<close> where it is not available, else the SHA-256 digest as hexadecimal text, which
  may fail (\<open>None\<close>) and then falls through to the fallback hash, as the source's
  \<^verbatim>\<open>catch\<close> does.
\<close>

type_synonym subtle = "(string \<Rightarrow> string option) option"

definition fallback_checksum :: "string \<Rightarrow> string" where
  "fallback_checksum jsonString =
     take 64 (padStart 64 (toString16 \<bar>fallback_hash 0 jsonString\<bar>))"

definition calculateChecksum :: "subtle \<Rightarrow> json \<Rightarrow> string" where
  "calculateChecksum subtle data =
     (let jsonString = JSON_stringify 0 data in
      case subtle of
        None \<Rightarrow> fallback_checksum jsonString
      | Some digest \<Rightarrow>
          (case digest jsonString of
             Some hex \<Rightarrow> hex
           | None \<Rightarrow> fallback_checksum jsonString))"

text \<open>The object literal \<^verbatim>\<open>{...data, metadata: {...data.metadata, k: v}}\<close>, which
  \<^verbatim>\<open>validateChecksum\<close>, \<^verbatim>\<open>updateChecksum\<close>, \<^verbatim>\<open>save\<close> and \<^verbatim>\<open>createBackup\<close> all build. The
  TypeScript signatures give \<open>data\<close> the document type; a property of \<^verbatim>\<open>null\<close> reads as
  undefined here, where the platform would throw.\<close>

definition with_metadata :: "json \<Rightarrow> string \<Rightarrow> json \<Rightarrow> json" where
  "with_metadata data k v =
     JObj (obj_set (spread (Some data)) ''metadata''
       (JObj (obj_set (spread (get_prop data ''metadata'')) k v)))"

definition validateChecksum :: "subtle \<Rightarrow> json \<Rightarrow> bool" where
  "validateChecksum subtle data =
     (let storedChecksum = opt_prop (get_prop data ''metadata'') ''checksum'';
          calculatedChecksum = calculateChecksum subtle (with_metadata data ''checksum'' (JStr []))
      in storedChecksum = Some (JStr calculatedChecksum))"

definition updateChecksum :: "subtle \<Rightarrow> json \<Rightarrow> json" where
  "updateChecksum subtle data =
     (let dataWithoutChecksum = with_metadata data ''checksum'' (JStr []);
          checksum = calculateChecksum subtle dataWithoutChecksum
      in with_metadata dataWithoutChecksum ''checksum'' (JStr checksum))"

definition validateSchema :: "json \<Rightarrow> bool" where
  "validateSchema data =
     (if \<not> truthy (Some data) \<or> \<not> is_object (Some data) then False
      else if \<not> is_number (get_prop data ''version'') then False
      else if \<not> isArray (get_prop data ''clients'') then False
      else if \<not> isArray (get_prop data ''projects'') then False
      else if \<not> isArray (get_prop data ''tasks'') then False
      else if \<not> truthy (get_prop data ''config'') \<or> \<not> is_object (get_prop data ''config'')
        then False
      else if \<not> truthy (get_prop data ''metadata'') \<or> \<not> is_object (get_prop data ''metadata'')
        then False
      else True)"

section \<open>The file system\<close>

text \<open>
  \<^verbatim>\<open>NodeStorage\<close> touches three places under its data directory: the live document
  \<^verbatim>\<open>studioflow.db.json\<close>, the staging file \<^verbatim>\<open>temp/studioflow-write-temp.json\<close> and the
  directory \<^verbatim>\<open>backups\<close>. The state of the file system is the content of the three, and
  what can fail is written into the state: a file is absent (\<^verbatim>\<open>ENOENT\<close>), a file cannot be
  read or cannot be written, a directory cannot be listed or cannot be written
  (\<^verbatim>\<open>EACCES\<close>). A directory that cannot be written refuses creating, renaming and
  removing its entries; replacing the content of a file that is there is up to the file,
  not to its directory. A failed call changes nothing. The backup directory is its
  entries in \<^verbatim>\<open>readdir\<close> order, \<open>None\<close> when the directory itself is missing; file names hold
  no path separator. The data and staging directories exist: the constructor has created
  them.
\<close>

datatype error =
    ENOENT
  | EACCES
  | SyntaxError
  | InvalidData
  | TempFileCorrupt
  | InvalidSchema
  | NoDataToBackup
  | InvalidBackupSchema
  | BackupNotFound string

text \<open>
  \<open>ENOENT\<close> and \<open>EACCES\<close> are the system errors, which carry a \<^verbatim>\<open>code\<close>; \<open>SyntaxError\<close> is
  what \<^verbatim>\<open>JSON.parse\<close> throws. The others are the \<^verbatim>\<open>Error\<close> objects the source creates,
  told apart by their message: "Dados invalidos: schema nao corresponde" and "Arquivo
  temporario corrompido apos escrita" in \<^verbatim>\<open>saveAtomic\<close>, "Schema invalido" in \<^verbatim>\<open>load\<close>
  (caught there), "Nenhum dado para fazer backup" in \<^verbatim>\<open>createBackup\<close>, "Schema do backup
  invalido" and "Backup (id) nao encontrado" in \<^verbatim>\<open>restoreBackup\<close>.
\<close>

record file_entry =
  content :: string
  mtime :: int
  readable :: bool
  writable :: bool

record filesystem =
  dataFile :: "file_entry option"
  tempFile :: "file_entry option"
  backupDir :: "(string \<times> file_entry) list option"
  dataDir_writable :: bool
  tempDir_writable :: bool
  backupDir_writable :: bool
  backupDir_readable :: bool

definition new_file :: "int \<Rightarrow> string \<Rightarrow> file_entry" where
  "new_file now s = \<lparr>content = s, mtime = now, readable = True, writable = True\<rparr>"

fun dir_put :: "(string \<times> file_entry) list \<Rightarrow> string \<Rightarrow> file_entry \<Rightarrow> (string \<times> file_entry) list" where
  "dir_put [] name f = [(name, f)]"
| "dir_put ((n, g) # es) name f = (if n = name then (n, f) # es else (n, g) # dir_put es name f)"

definition dir_remove :: "(string \<times> file_entry) list \<Rightarrow> string \<Rightarrow> (string \<times> file_entry) list" where
  "dir_remove es name = filter (\<lambda>e. fst e \<noteq> name) es"

definition backup_file :: "filesystem \<Rightarrow> string \<Rightarrow> file_entry option" where
  "backup_file fs name = (case backupDir fs of None \<Rightarrow> None | Some es \<Rightarrow> map_of es name)"

definition readFile :: "file_entry option \<Rightarrow> error + string" where
  "readFile f =
     (case f of
        None \<Rightarrow> Inl ENOENT
      | Some x \<Rightarrow> if readable x then Inr (content x) else Inl EACCES)"

text \<open>
  \<^verbatim>\<open>fs.writeFile(path, s)\<close> on the file \<open>f\<close> at the path, in a directory that can or cannot
  be written. An absent file is created, which the directory must allow. A file that is
  there is opened and its content replaced, which the file itself must allow; it keeps
  its permissions.
\<close>

definition can_write :: "bool \<Rightarrow> file_entry option \<Rightarrow> bool" where
  "can_write dir_writable f = (case f of None \<Rightarrow> dir_writable | Some x \<Rightarrow> writable x)"

definition written_file :: "int \<Rightarrow> string \<Rightarrow> file_entry option \<Rightarrow> file_entry" where
  "written_file now s f =
     (case f of None \<Rightarrow> new_file now s | Some x \<Rightarrow> x\<lparr>content := s, mtime := now\<rparr>)"

definition writeFile :: "bool \<Rightarrow> int \<Rightarrow> string \<Rightarrow> file_entry option \<Rightarrow> error + file_entry" where
  "writeFile dir_writable now s f =
     (if can_write dir_writable f then Inr (written_file now s f) else Inl EACCES)"

definition writeFile_temp :: "int \<Rightarrow> string \<Rightarrow> filesystem \<Rightarrow> error + filesystem" where
  "writeFile_temp now s fs =
     (case writeFile (tempDir_writable fs) now s (tempFile fs) of
        Inl e \<Rightarrow> Inl e
      | Inr f \<Rightarrow> Inr (fs\<lparr>tempFile := Some f\<rparr>))"

definition writeFile_data :: "int \<Rightarrow> string \<Rightarrow> filesystem \<Rightarrow> error + filesystem" where
  "writeFile_data now s fs =
     (case writeFile (dataDir_writable fs) now s (dataFile fs) of
        Inl e \<Rightarrow> Inl e
      | Inr f \<Rightarrow> Inr (fs\<lparr>dataFile := Some f\<rparr>))"

definition writeFile_backup :: "int \<Rightarrow> string \<Rightarrow> string \<Rightarrow> filesystem \<Rightarrow> error + filesystem" where
  "writeFile_backup now name s fs =
     (case backupDir fs of
        None \<Rightarrow> Inl ENOENT
      | Some es \<Rightarrow>
          (case writeFile (backupDir_writable fs) now s (map_of es name) of
             Inl e \<Rightarrow> Inl e
           | Inr f \<Rightarrow> Inr (fs\<lparr>backupDir := Some (dir_put es name f)\<rparr>)))"

text \<open>\<^verbatim>\<open>fs.rename(tempFile, dataFile)\<close>: the staging file becomes the live document in one
  step, or nothing changes. The entry moves out of the staging directory and into the
  data directory, which both must allow; the file it replaces has no say.\<close>

definition rename_temp :: "filesystem \<Rightarrow> error + filesystem" where
  "rename_temp fs =
     (case tempFile fs of
        None \<Rightarrow> Inl ENOENT
      | Some f \<Rightarrow>
          if tempDir_writable fs \<and> dataDir_writable fs
          then Inr (fs\<lparr>dataFile := Some f, tempFile := None\<rparr>)
          else Inl EACCES)"

definition unlink_temp :: "filesystem \<Rightarrow> error + filesystem" where
  "unlink_temp fs =
     (case tempFile fs of
        None \<Rightarrow> Inl ENOENT
      | Some f \<Rightarrow> if tempDir_writable fs then Inr (fs\<lparr>tempFile := None\<rparr>) else Inl EACCES)"

definition unlink_backup :: "string \<Rightarrow> filesystem \<Rightarrow> error + filesystem" where
  "unlink_backup name fs =
     (case backup_file fs name of
        None \<Rightarrow> Inl ENOENT
      | Some f \<Rightarrow>
          if backupDir_writable fs
          then Inr (fs\<lparr>backupDir := map_option (\<lambda>es. dir_remove es name) (backupDir fs)\<rparr>)
          else Inl EACCES)"

definition readdir_backups :: "filesystem \<Rightarrow> error + string list" where
  "readdir_backups fs =
     (case backupDir fs of
        None \<Rightarrow> Inl ENOENT
      | Some es \<Rightarrow> if backupDir_readable fs then Inr (map fst es) else Inl EACCES)"

section \<open>\<^verbatim>\<open>NodeStorage\<close> (\<^verbatim>\<open>node-storage.ts\<close>)\<close>

record StorageConfig =
  debounceMs :: nat
  maxBackups :: nat
  backupRetentionDays :: nat
  enableCompression :: bool

text \<open>The defaults the constructor fills in.\<close>

definition default_config :: StorageConfig where
  "default_config =
     \<lparr>debounceMs = 500, maxBackups = 10, backupRetentionDays = 30, enableCompression = False\<rparr>"

record BackupInfo =
  info_id :: string
  info_timestamp :: json
  info_size :: nat
  info_checksum :: json

subsection \<open>\<^verbatim>\<open>listBackups\<close>\<close>

text \<open>\<^verbatim>\<open>v || fallback\<close> for a possibly undefined value.\<close>

definition or_else :: "json option \<Rightarrow> json \<Rightarrow> json" where
  "or_else v fallback = (case v of None \<Rightarrow> fallback | Some x \<Rightarrow> if truthy (Some x) then x else fallback)"

text \<open>
  The body of the loop for one directory entry whose name ends in \<^verbatim>\<open>.json\<close>: \<open>None\<close> when
  \<^verbatim>\<open>stat\<close>, \<^verbatim>\<open>readFile\<close> or \<^verbatim>\<open>JSON.parse\<close> throws, or when the parsed value is \<^verbatim>\<open>null\<close> (then
  \<^verbatim>\<open>data.metadata\<close> throws a TypeError); the inner \<^verbatim>\<open>catch\<close> logs it and goes on.
\<close>

definition backup_info :: "filesystem \<Rightarrow> string \<Rightarrow> BackupInfo option" where
  "backup_info fs name =
     (case backup_file fs name of
        None \<Rightarrow> None
      | Some stats \<Rightarrow>
          (case readFile (Some stats) of
             Inl e \<Rightarrow> None
           | Inr text \<Rightarrow>
               (case JSON_parse text of
                  None \<Rightarrow> None
                | Some data \<Rightarrow>
                    if data = JNull then None
                    else Some
                      \<lparr>info_id = replace_first ''.json'' [] name,
                       info_timestamp =
                         or_else (opt_prop (get_prop data ''metadata'') ''lastBackup'')
                           (JStr (toISOString (mtime stats))),
                       info_size = length (content stats),
                       info_checksum =
                         or_else (opt_prop (get_prop data ''metadata'') ''checksum'') (JStr [])\<rparr>)))"

fun collect_backups :: "filesystem \<Rightarrow> string list \<Rightarrow> BackupInfo list" where
  "collect_backups fs [] = []"
| "collect_backups fs (name # names) =
     (if \<not> endsWith name ''.json'' then collect_backups fs names
      else (case backup_info fs name of
              None \<Rightarrow> collect_backups fs names
            | Some b \<Rightarrow> b # collect_backups fs names))"

definition listBackups :: "filesystem \<Rightarrow> error + BackupInfo list" where
  "listBackups fs =
     (case readdir_backups fs of
        Inl e \<Rightarrow> if e = ENOENT then Inr [] else Inl e
      | Inr files \<Rightarrow> Inr (collect_backups fs files))"

subsection \<open>\<^verbatim>\<open>cleanOldBackups\<close>\<close>

definition time_of :: "BackupInfo \<Rightarrow> int option" where
  "time_of b = Date_getTime (info_timestamp b)"

text \<open>The comparators of the two sorts: \<^verbatim>\<open>time(a) - time(b)\<close>, oldest first, in
  \<^verbatim>\<open>cleanOldBackups\<close>, and \<^verbatim>\<open>time(b) - time(a)\<close>, newest first, in \<^verbatim>\<open>tryRestoreFromBackup\<close>.\<close>

definition oldest_first :: "BackupInfo \<Rightarrow> BackupInfo \<Rightarrow> int option" where
  "oldest_first a b =
     (case (time_of a, time_of b) of (Some x, Some y) \<Rightarrow> Some (x - y) | _ \<Rightarrow> None)"

definition newest_first :: "BackupInfo \<Rightarrow> BackupInfo \<Rightarrow> int option" where
  "newest_first a b =
     (case (time_of a, time_of b) of (Some x, Some y) \<Rightarrow> Some (y - x) | _ \<Rightarrow> None)"

text \<open>\<^verbatim>\<open>backupDate < cutoffDate\<close>: false for an invalid date.\<close>

definition before :: "int option \<Rightarrow> int \<Rightarrow> bool" where
  "before t cutoff = (case t of None \<Rightarrow> False | Some x \<Rightarrow> x < cutoff)"

text \<open>\<^verbatim>\<open>cutoffDate.setDate(cutoffDate.getDate() - backupRetentionDays)\<close>: in a time zone
  without daylight saving, that many days of 86400000 milliseconds before now.\<close>

definition cutoffDate :: "StorageConfig \<Rightarrow> int \<Rightarrow> int" where
  "cutoffDate cfg now = now - int (backupRetentionDays cfg) * 86400000"

text \<open>
  The loop over the sorted backups, from index \<open>i\<close> on; \<open>n\<close> is \<^verbatim>\<open>backups.length\<close>. An
  \<^verbatim>\<open>unlink\<close> that throws leaves the loop: the outer \<^verbatim>\<open>catch\<close> logs the error and the
  remaining backups stay.
\<close>

fun sweep :: "StorageConfig \<Rightarrow> int \<Rightarrow> nat \<Rightarrow> nat \<Rightarrow> BackupInfo list \<Rightarrow> filesystem \<Rightarrow> filesystem" where
  "sweep cfg cutoff n i [] fs = fs"
| "sweep cfg cutoff n i (backup # rest) fs =
     (if before (time_of backup) cutoff \<or> int i < int n - int (maxBackups cfg)
      then (case unlink_backup (info_id backup @ ''.json'') fs of
              Inl e \<Rightarrow> fs
            | Inr fs' \<Rightarrow> sweep cfg cutoff n (Suc i) rest fs')
      else sweep cfg cutoff n (Suc i) rest fs)"

definition cleanOldBackups :: "StorageConfig \<Rightarrow> int \<Rightarrow> filesystem \<Rightarrow> filesystem" where
  "cleanOldBackups cfg now fs =
     (case listBackups fs of
        Inl e \<Rightarrow> fs
      | Inr backups \<Rightarrow>
          sweep cfg (cutoffDate cfg now) (length backups) 0 (sort_by oldest_first backups) fs)"

subsection \<open>\<^verbatim>\<open>saveAtomic\<close>\<close>

text \<open>The \<^verbatim>\<open>catch\<close> block of \<^verbatim>\<open>saveAtomic\<close>: remove the staging file, ignoring a failure
  to do so, and throw the error again.\<close>

definition abort_write :: "error \<Rightarrow> filesystem \<Rightarrow> (error + unit) \<times> filesystem" where
  "abort_write e fs = (Inl e, (case unlink_temp fs of Inl e' \<Rightarrow> fs | Inr fs' \<Rightarrow> fs'))"

text \<open>Step 4, with its own \<^verbatim>\<open>try\<close>: copy the live document into the backup file; the
  \<^verbatim>\<open>catch\<close> swallows whatever the read or the write throws.\<close>

definition backup_current :: "int \<Rightarrow> string \<Rightarrow> filesystem \<Rightarrow> filesystem" where
  "backup_current now backupFile fs =
     (case readFile (dataFile fs) of
        Inl e \<Rightarrow> fs
      | Inr currentData \<Rightarrow>
          (case writeFile_backup now backupFile currentData fs of
             Inl e \<Rightarrow> fs
           | Inr fs' \<Rightarrow> fs'))"

text \<open>
  The clean-up of step 6 is started and not awaited; in this sequential model it runs to
  its end before \<^verbatim>\<open>saveAtomic\<close> returns. One reading of the clock, \<open>now\<close>, serves the whole
  call.
\<close>

definition saveAtomic :: "StorageConfig \<Rightarrow> int \<Rightarrow> json \<Rightarrow> filesystem \<Rightarrow> (error + unit) \<times> filesystem" where
  "saveAtomic cfg now data fs =
     (let backupFile = ''studioflow-'' @ formatTimestampForFilename now @ ''.json'' in
      if \<not> validateSchema data then abort_write InvalidData fs
      else
        (case writeFile_temp now (JSON_stringify 2 data) fs of
           Inl e \<Rightarrow> abort_write e fs
         | Inr fs1 \<Rightarrow>
             (case readFile (tempFile fs1) of
                Inl e \<Rightarrow> abort_write e fs1
              | Inr tempContent \<Rightarrow>
                  (case JSON_parse tempContent of
                     None \<Rightarrow> abort_write SyntaxError fs1
                   | Some tempData \<Rightarrow>
                       if \<not> validateSchema tempData then abort_write TempFileCorrupt fs1
                       else
                         (let fs2 = backup_current now backupFile fs1 in
                          case rename_temp fs2 of
                            Inl e \<Rightarrow> abort_write e fs2
                          | Inr fs3 \<Rightarrow> (Inr (), cleanOldBackups cfg now fs3))))))"

subsection \<open>\<^verbatim>\<open>load\<close> and \<^verbatim>\<open>tryRestoreFromBackup\<close>\<close>

text \<open>The loop over the backups, newest first. Everything that throws inside the body,
  the write into the live slot included, is caught and the loop goes on.\<close>

fun restore_loop :: "subtle \<Rightarrow> int \<Rightarrow> BackupInfo list \<Rightarrow> filesystem \<Rightarrow> json option \<times> filesystem" where
  "restore_loop subtle now [] fs = (None, fs)"
| "restore_loop subtle now (backup # rest) fs =
     (case readFile (backup_file fs (info_id backup @ ''.json'')) of
        Inl e \<Rightarrow> restore_loop subtle now rest fs
      | Inr text \<Rightarrow>
          (case JSON_parse text of
             None \<Rightarrow> restore_loop subtle now rest fs
           | Some data \<Rightarrow>
               if \<not> validateSchema data then restore_loop subtle now rest fs
               else if validateChecksum subtle data then
                 (case writeFile_data now text fs of
                    Inl e \<Rightarrow> restore_loop subtle now rest fs
                  | Inr fs' \<Rightarrow> (Some data, fs'))
               else restore_loop subtle now rest fs))"

definition tryRestoreFromBackup :: "subtle \<Rightarrow> int \<Rightarrow> filesystem \<Rightarrow> (error + json option) \<times> filesystem" where
  "tryRestoreFromBackup subtle now fs =
     (case listBackups fs of
        Inl e \<Rightarrow> (Inl e, fs)
      | Inr backups \<Rightarrow>
          if backups = [] then (Inr None, fs)
          else (case restore_loop subtle now (sort_by newest_first backups) fs of
                  (r, fs') \<Rightarrow> (Inr r, fs')))"

text \<open>The \<^verbatim>\<open>catch\<close> block of \<^verbatim>\<open>load\<close>.\<close>

definition load_failed :: "subtle \<Rightarrow> int \<Rightarrow> error \<Rightarrow> filesystem \<Rightarrow> (error + json option) \<times> filesystem" where
  "load_failed subtle now e fs =
     (if e = ENOENT then (Inr None, fs) else tryRestoreFromBackup subtle now fs)"

text \<open>The result \<open>Inr None\<close> is the \<^verbatim>\<open>null\<close> that \<^verbatim>\<open>load\<close> returns. The restoration after a
  checksum mismatch is awaited inside the \<^verbatim>\<open>try\<close>, so an error it throws reaches the
  \<^verbatim>\<open>catch\<close> block too.\<close>

definition load :: "subtle \<Rightarrow> int \<Rightarrow> filesystem \<Rightarrow> (error + json option) \<times> filesystem" where
  "load subtle now fs =
     (case readFile (dataFile fs) of
        Inl e \<Rightarrow> load_failed subtle now e fs
      | Inr text \<Rightarrow>
          (case JSON_parse text of
             None \<Rightarrow> load_failed subtle now SyntaxError fs
           | Some data \<Rightarrow>
               if \<not> validateSchema data then load_failed subtle now InvalidSchema fs
               else if \<not> validateChecksum subtle data then
                 (case tryRestoreFromBackup subtle now fs of
                    (Inl e, fs') \<Rightarrow> load_failed subtle now e fs'
                  | (Inr r, fs') \<Rightarrow> (Inr r, fs'))
               else (Inr (Some data), fs)))"

subsection \<open>\<^verbatim>\<open>createBackup\<close> and \<^verbatim>\<open>restoreBackup\<close>\<close>

definition createBackup :: "subtle \<Rightarrow> StorageConfig \<Rightarrow> int \<Rightarrow> filesystem \<Rightarrow> (error + string) \<times> filesystem" where
  "createBackup subtle cfg now fs =
     (case load subtle now fs of
        (Inl e, fs1) \<Rightarrow> (Inl e, fs1)
      | (Inr None, fs1) \<Rightarrow> (Inl NoDataToBackup, fs1)
      | (Inr (Some data), fs1) \<Rightarrow>
          (let backupId = ''backup-'' @ formatTimestampForFilename now;
               backupData = with_metadata data ''lastBackup'' (JStr (toISOString now))
           in case writeFile_backup now (backupId @ ''.json'') (JSON_stringify 2 backupData) fs1 of
                Inl e \<Rightarrow> (Inl e, fs1)
              | Inr fs2 \<Rightarrow> (Inr backupId, cleanOldBackups cfg now fs2)))"

text \<open>The \<^verbatim>\<open>try\<close> block of \<^verbatim>\<open>restoreBackup\<close>, and the whole with its \<^verbatim>\<open>catch\<close>, which
  turns every \<^verbatim>\<open>ENOENT\<close> into the not-found error.\<close>

definition restore_body :: "StorageConfig \<Rightarrow> int \<Rightarrow> string \<Rightarrow> filesystem \<Rightarrow> (error + unit) \<times> filesystem" where
  "restore_body cfg now backupId fs =
     (case readFile (backup_file fs (backupId @ ''.json'')) of
        Inl e \<Rightarrow> (Inl e, fs)
      | Inr text \<Rightarrow>
          (case JSON_parse text of
             None \<Rightarrow> (Inl SyntaxError, fs)
           | Some data \<Rightarrow>
               if \<not> validateSchema data then (Inl InvalidBackupSchema, fs)
               else saveAtomic cfg now data fs))"

definition restoreBackup :: "StorageConfig \<Rightarrow> int \<Rightarrow> string \<Rightarrow> filesystem \<Rightarrow> (error + unit) \<times> filesystem" where
  "restoreBackup cfg now backupId fs =
     (case restore_body cfg now backupId fs of
        (Inl e, fs') \<Rightarrow> (Inl (if e = ENOENT then BackupNotFound backupId else e), fs')
      | (Inr u, fs') \<Rightarrow> (Inr u, fs'))"

subsection \<open>The write queue: \<^verbatim>\<open>save\<close>, \<^verbatim>\<open>enqueueWrite\<close>, \<^verbatim>\<open>processQueue\<close>, \<^verbatim>\<open>flush\<close>\<close>

text \<open>
  The object's state. Only \<^verbatim>\<open>save\<close> enqueues, so a queued operation is known by the
  document its closure captured. \<open>running\<close> is the operation that \<^verbatim>\<open>processQueue\<close> has
  shifted off the queue and is awaiting: its \<^verbatim>\<open>setTimeout\<close> of \<^verbatim>\<open>debounceMs\<close> is pending.
  The event loop is modelled by its events: a call of \<^verbatim>\<open>save\<close>, the timer of the running
  operation firing, a call of \<^verbatim>\<open>flush\<close>.
\<close>

record NodeStorage =
  files :: filesystem
  config :: StorageConfig
  writeQueue :: "json list"
  isProcessing :: bool
  running :: "json option"

definition new_storage :: "StorageConfig \<Rightarrow> filesystem \<Rightarrow> NodeStorage" where
  "new_storage cfg fs =
     \<lparr>files = fs, config = cfg, writeQueue = [], isProcessing = False, running = None\<rparr>"

text \<open>The head of the \<^verbatim>\<open>while\<close> loop of \<^verbatim>\<open>processQueue\<close>: shift the next operation and
  start it, or leave the loop and clear the flag.\<close>

definition next_operation :: "NodeStorage \<Rightarrow> NodeStorage" where
  "next_operation st =
     (case writeQueue st of
        [] \<Rightarrow> st\<lparr>isProcessing := False, running := None\<rparr>
      | data # rest \<Rightarrow> st\<lparr>writeQueue := rest, running := Some data\<rparr>)"

text \<open>\<^verbatim>\<open>processQueue\<close> up to its first \<^verbatim>\<open>await\<close>, which is as far as it runs inside the
  call that started it.\<close>

definition processQueue :: "NodeStorage \<Rightarrow> NodeStorage" where
  "processQueue st =
     (if isProcessing st \<or> writeQueue st = [] then st
      else next_operation (st\<lparr>isProcessing := True\<rparr>))"

text \<open>\<^verbatim>\<open>save\<close>, that is \<^verbatim>\<open>enqueueWrite\<close> of its closure: push, then \<^verbatim>\<open>processQueue\<close>.\<close>

definition save :: "json \<Rightarrow> NodeStorage \<Rightarrow> NodeStorage" where
  "save data st = processQueue (st\<lparr>writeQueue := writeQueue st @ [data]\<rparr>)"

text \<open>The closure of \<^verbatim>\<open>save\<close> after its timer: stamp \<^verbatim>\<open>lastSync\<close>, refresh the checksum,
  write atomically.\<close>

definition save_operation :: "subtle \<Rightarrow> StorageConfig \<Rightarrow> int \<Rightarrow> json \<Rightarrow> filesystem \<Rightarrow> (error + unit) \<times> filesystem" where
  "save_operation subtle cfg now data fs =
     saveAtomic cfg now
       (updateChecksum subtle (with_metadata data ''lastSync'' (JStr (toISOString now)))) fs"

text \<open>The timer of the running operation fires at \<open>now\<close>: the operation completes, its
  outcome settles the promise that \<^verbatim>\<open>save\<close> returned, and the loop goes to the next
  operation.\<close>

definition timer_fires :: "subtle \<Rightarrow> int \<Rightarrow> NodeStorage \<Rightarrow> (error + unit) option \<times> NodeStorage" where
  "timer_fires subtle now st =
     (case running st of
        None \<Rightarrow> (None, st)
      | Some data \<Rightarrow>
          (case save_operation subtle (config st) now data (files st) of
             (r, fs') \<Rightarrow> (Some r, next_operation (st\<lparr>files := fs'\<rparr>))))"

text \<open>
  \<^verbatim>\<open>await this.processQueue()\<close> as \<^verbatim>\<open>flush\<close> sees it. While the queue is being processed,
  or when it is empty, the call returns at once and changes nothing. Otherwise the call
  runs the whole queue, one operation after the other, each after its own debounce delay.
\<close>

fun run_operations :: "subtle \<Rightarrow> StorageConfig \<Rightarrow> int \<Rightarrow> json list \<Rightarrow> filesystem \<Rightarrow> filesystem" where
  "run_operations subtle cfg now [] fs = fs"
| "run_operations subtle cfg now (data # rest) fs =
     run_operations subtle cfg (now + int (debounceMs cfg)) rest
       (snd (save_operation subtle cfg (now + int (debounceMs cfg)) data fs))"

definition await_processQueue :: "subtle \<Rightarrow> int \<Rightarrow> NodeStorage \<Rightarrow> NodeStorage" where
  "await_processQueue subtle now st =
     (if isProcessing st \<or> writeQueue st = [] then st
      else st\<lparr>files := run_operations subtle (config st) now (writeQueue st) (files st),
              writeQueue := [], isProcessing := False, running := None\<rparr>)"

text \<open>\<^verbatim>\<open>flush\<close>: \<^verbatim>\<open>while (this.writeQueue.length > 0) await this.processQueue()\<close>. \<open>None\<close> is
  a call that never resolves.\<close>

partial_function (option) flush :: "subtle \<Rightarrow> int \<Rightarrow> NodeStorage \<Rightarrow> NodeStorage option" where
  "flush subtle now st =
     (if writeQueue st \<noteq> [] then flush subtle now (await_processQueue subtle now st)
      else Some st)"

section \<open>Notions the properties are stated with\<close>

subsection \<open>Backups that are listed, and backups that verify\<close>

text \<open>A backup file that \<^verbatim>\<open>listBackups\<close> can describe: it can be read and its text parses
  to something other than \<^verbatim>\<open>null\<close>. An entry is listed when its name ends in \<^verbatim>\<open>.json\<close>
  and its file is such a snapshot.\<close>

definition valid_snapshot :: "file_entry \<Rightarrow> bool" where
  "valid_snapshot f =
     (readable f \<and> (case JSON_parse (content f) of None \<Rightarrow> False | Some data \<Rightarrow> data \<noteq> JNull))"

definition listed :: "string \<times> file_entry \<Rightarrow> bool" where
  "listed e = (endsWith (fst e) ''.json'' \<and> valid_snapshot (snd e))"


text \<open>The text of a file passes the load checks: it parses, the value has the shape of
  the schema and its checksum is the one stored in it.\<close>

definition verified_text :: "subtle \<Rightarrow> string \<Rightarrow> bool" where
  "verified_text subtle text =
     (case JSON_parse text of
        None \<Rightarrow> False
      | Some data \<Rightarrow> validateSchema data \<and> validateChecksum subtle data)"

text \<open>A listed backup verifies when its file can be read and the text passes.\<close>

definition verifies :: "subtle \<Rightarrow> filesystem \<Rightarrow> BackupInfo \<Rightarrow> bool" where
  "verifies subtle fs b =
     (case readFile (backup_file fs (info_id b @ ''.json'')) of
        Inl e \<Rightarrow> False
      | Inr text \<Rightarrow> verified_text subtle text)"

text \<open>The live document is there and fails: it cannot be read, or its text does not pass
  the load checks.\<close>

definition live_fails :: "subtle \<Rightarrow> filesystem \<Rightarrow> bool" where
  "live_fails subtle fs =
     (case dataFile fs of
        None \<Rightarrow> False
      | Some f \<Rightarrow> if readable f then \<not> verified_text subtle (content f) else True)"



subsection \<open>Retention\<close>





section \<open>Example states\<close>

text \<open>The instant 2024-01-15T10:30:00.000Z, and a file system with nothing stored yet.\<close>

definition t0 :: int where
  "t0 = 1705314600000"

definition fs_empty :: filesystem where
  "fs_empty =
     \<lparr>dataFile = None, tempFile = None, backupDir = Some [],
      dataDir_writable = True, tempDir_writable = True,
      backupDir_writable = True, backupDir_readable = True\<rparr>"

text \<open>A backup directory with one good snapshot, text that does not parse, a file that is
  no snapshot by its name, a snapshot that cannot be read, and another good one.\<close>

definition mixed_dir :: "(string \<times> file_entry) list" where
  "mixed_dir =
     [(''a.json'', \<lparr>content = ''1'', mtime = t0, readable = True, writable = True\<rparr>),
      (''b.json'', \<lparr>content = ''{'', mtime = t0, readable = True, writable = True\<rparr>),
      (''notes.txt'', \<lparr>content = ''1'', mtime = t0, readable = True, writable = True\<rparr>),
      (''c.json'', \<lparr>content = ''1'', mtime = t0, readable = False, writable = True\<rparr>),
      (''d.json'', \<lparr>content = ''2'', mtime = t0, readable = True, writable = True\<rparr>)]"

definition fs_mixed :: filesystem where
  "fs_mixed = fs_empty\<lparr>backupDir := Some mixed_dir\<rparr>"

definition fs_no_backupDir :: filesystem where
  "fs_no_backupDir = fs_empty\<lparr>backupDir := None\<rparr>"

text \<open>A document of the schema with one task; its metadata is what the data layer passes
  to \<^verbatim>\<open>save\<close>, both timestamps and the checksum empty. And the same document with the
  checksum of its content, computed by the fallback hash.\<close>

definition example_doc :: "string \<Rightarrow> json" where
  "example_doc task =
     JObj [(''version'', JNum 1), (''clients'', JArr []), (''projects'', JArr []),
           (''tasks'', JArr [JStr task]), (''config'', JObj []),
           (''metadata'', JObj [(''lastSync'', JStr []), (''lastBackup'', JStr []),
                                (''checksum'', JStr [])])]"

definition sealed_doc :: "string \<Rightarrow> json" where
  "sealed_doc task = updateChecksum None (example_doc task)"

text \<open>A file system whose live document is there, with three backups: a document of the
  schema, text that does not parse, and a value that parses but is no document. Then the
  same with a live document that is read-only, and the same with a data directory that
  cannot be written.\<close>

definition fs_restore :: filesystem where
  "fs_restore =
     fs_empty
       \<lparr>dataFile := Some
          \<lparr>content = JSON_stringify 2 (example_doc ''live''), mtime = t0,
           readable = True, writable = True\<rparr>,
        backupDir := Some
          [(''good.json'',
              \<lparr>content = JSON_stringify 2 (example_doc ''a''), mtime = t0,
               readable = True, writable = True\<rparr>),
           (''bad.json'', \<lparr>content = ''{'', mtime = t0, readable = True, writable = True\<rparr>),
           (''odd.json'', \<lparr>content = ''1'', mtime = t0, readable = True, writable = True\<rparr>)]\<rparr>"

definition fs_restore_readonly :: filesystem where
  "fs_restore_readonly =
     fs_restore
       \<lparr>dataFile := Some
          \<lparr>content = JSON_stringify 2 (example_doc ''live''), mtime = t0,
           readable = True, writable = False\<rparr>\<rparr>"

definition fs_restore_closed :: filesystem where
  "fs_restore_closed = fs_restore\<lparr>dataDir_writable := False\<rparr>"

text \<open>A snapshot with one byte changed after it was written: the task \<^verbatim>\<open>q\<close> of the sealed
  document reads \<^verbatim>\<open>z\<close>, the checksum is the one of the document as written. And a file
  system with a live document and this snapshot as its only backup.\<close>

definition tampered_text :: string where
  "tampered_text =
     map (\<lambda>c. if c = CHR ''q'' then CHR ''z'' else c) (JSON_stringify 2 (sealed_doc ''q''))"

definition fs_tampered :: filesystem where
  "fs_tampered =
     fs_empty
       \<lparr>dataFile := Some
          \<lparr>content = JSON_stringify 2 (sealed_doc ''a''), mtime = t0,
           readable = True, writable = True\<rparr>,
        backupDir := Some
          [(''backup-1.json'',
              \<lparr>content = tampered_text, mtime = t0, readable = True, writable = True\<rparr>)]\<rparr>"






text \<open>A live document that does not parse, and one backup that is no document.\<close>

definition fs_exhausted :: filesystem where
  "fs_exhausted =
     fs_empty
       \<lparr>dataFile := Some \<lparr>content = ''{'', mtime = t0 + 3000, readable = True, writable = True\<rparr>,
        backupDir := Some
          [(''studioflow-1.json'',
              \<lparr>content = ''1'', mtime = t0, readable = True, writable = True\<rparr>)]\<rparr>"

text \<open>A live document with a matching checksum, and no backup yet.\<close>

definition fs_live :: filesystem where
  "fs_live =
     fs_empty\<lparr>dataFile :=
       Some \<lparr>content = JSON_stringify 2 (sealed_doc ''a''), mtime = t0,
             readable = True, writable = True\<rparr>\<rparr>"









text \<open>The live document is there, and the backup directory cannot be written.\<close>

definition fs_guarded :: filesystem where
  "fs_guarded = fs_live\<lparr>backupDir_writable := False\<rparr>"

text \<open>
  Two calls of \<^verbatim>\<open>save\<close> in a row on a fresh store, and the states that follow: the text
  that the operation of a document writes when its timer fires at \<open>time\<close>, the store with
  the second call queued behind the first, the store after the first timer and the store
  after the second.
\<close>

definition written :: "string \<Rightarrow> int \<Rightarrow> string" where
  "written task time =
     JSON_stringify 2
       (updateChecksum None
          (with_metadata (example_doc task) ''lastSync'' (JStr (toISOString time))))"

definition queued_two :: NodeStorage where
  "queued_two =
     \<lparr>files = fs_empty, config = default_config, writeQueue = [example_doc ''b''],
      isProcessing = True, running = Some (example_doc ''a'')\<rparr>"

definition after_first :: NodeStorage where
  "after_first =
     \<lparr>files = fs_empty\<lparr>dataFile := Some (new_file (t0 + 500) (written ''a'' (t0 + 500)))\<rparr>,
      config = default_config, writeQueue = [],
      isProcessing = True, running = Some (example_doc ''b'')\<rparr>"

definition after_second :: NodeStorage where
  "after_second =
     \<lparr>files = fs_empty
        \<lparr>dataFile := Some (new_file (t0 + 1000) (written ''b'' (t0 + 1000))),
         backupDir := Some [(''studioflow-2024-01-15-10-30-01.json'',
                             new_file (t0 + 1000) (written ''a'' (t0 + 500)))]\<rparr>,
      config = default_config, writeQueue = [],
      isProcessing = False, running = None\<rparr>"

text \<open>One call of \<^verbatim>\<open>save\<close> on a fresh store: the operation is running, its timer pending.\<close>

definition saved_once :: NodeStorage where
  "saved_once =
     \<lparr>files = fs_empty, config = default_config, writeQueue = [],
      isProcessing = True, running = Some (example_doc ''a'')\<rparr>"

section \<open>Listing the backups\<close>

lemma backup_file_entry:
  assumes "backupDir fs = Some es" "distinct (map fst es)" "(n, f) \<in> set es"
  shows "backup_file fs n = Some f"
  using assms by (simp add: backup_file_def)

lemma backup_info_None_iff:
  assumes "backup_file fs n = Some f"
  shows "backup_info fs n = None \<longleftrightarrow> \<not> valid_snapshot f"
  using assms
  by (auto simp: backup_info_def valid_snapshot_def readFile_def split: option.splits)

lemma backup_info_id:
  "backup_info fs n = Some b \<Longrightarrow> info_id b = replace_first ''.json'' [] n"
  by (auto simp: backup_info_def split: option.splits sum.splits if_splits)

lemma collect_backups_ids:
  assumes "backupDir fs = Some es" "distinct (map fst es)" "set xs \<subseteq> set es"
  shows "map info_id (collect_backups fs (map fst xs)) =
         map (\<lambda>e. replace_first ''.json'' [] (fst e)) (filter listed xs)"
  using assms(3)
proof (induction xs)
  case Nil
  then show ?case by simp
next
  case (Cons e xs)
  obtain n f where e: "e = (n, f)" by (cases e)
  with Cons.prems have "(n, f) \<in> set es" by simp
  then have bf: "backup_file fs n = Some f"
    using assms(1,2) by (rule backup_file_entry[rotated 2])
  have l: "listed (n, f) = (endsWith n ''.json'' \<and> valid_snapshot f)"
    by (simp add: listed_def)
  from Cons have IH: "map info_id (collect_backups fs (map fst xs)) =
         map (\<lambda>e. replace_first ''.json'' [] (fst e)) (filter listed xs)" by simp
  show ?case
  proof (cases "backup_info fs n")
    case None
    then have "\<not> valid_snapshot f" using backup_info_None_iff[OF bf] by simp
    then show ?thesis using None IH by (simp add: e l)
  next
    case (Some b)
    then have "valid_snapshot f" using backup_info_None_iff[OF bf] by auto
    then show ?thesis using Some IH backup_info_id[OF Some] by (simp add: e l)
  qed
qed

text \<open>
  Claim C10. \<^verbatim>\<open>listBackups\<close> does not fail because of a bad snapshot. When the backup
  directory is missing the result is the empty list, not an error. When the directory can
  be listed the call succeeds whatever its entries hold, and the result has exactly one
  entry, in directory order, for every entry that is listed: entries whose name does not
  end in \<^verbatim>\<open>.json\<close> are ignored, entries that cannot be read or parsed are skipped, and
  the valid ones among them are all returned.
\<close>

theorem listBackups_skips_bad_entries:
  "(backupDir fs = None \<longrightarrow> listBackups fs = Inr []) \<and>
   (backupDir fs = Some es \<and> backupDir_readable fs \<and> distinct (map fst es) \<longrightarrow>
      (\<exists>bs. listBackups fs = Inr bs \<and>
         map info_id bs = map (\<lambda>e. replace_first ''.json'' [] (fst e)) (filter listed es)))"
proof (intro conjI impI)
  assume "backupDir fs = None"
  then show "listBackups fs = Inr []"
    by (simp add: listBackups_def readdir_backups_def)
next
  assume a: "backupDir fs = Some es \<and> backupDir_readable fs \<and> distinct (map fst es)"
  then have "listBackups fs = Inr (collect_backups fs (map fst es))"
    by (simp add: listBackups_def readdir_backups_def)
  moreover have "map info_id (collect_backups fs (map fst es)) =
         map (\<lambda>e. replace_first ''.json'' [] (fst e)) (filter listed es)"
    using a by (intro collect_backups_ids) auto
  ultimately show "\<exists>bs. listBackups fs = Inr bs \<and>
         map info_id bs = map (\<lambda>e. replace_first ''.json'' [] (fst e)) (filter listed es)"
    by simp
qed

lemma mixed_dir_listed:
  "map (\<lambda>e. replace_first ''.json'' [] (fst e)) (filter listed mixed_dir) = [''a'', ''d'']"
  by code_simp

lemma mixed_dir_distinct: "distinct (map fst mixed_dir)"
  by code_simp

theorem listBackups_skips_bad_entries_witness:
  "backupDir fs_no_backupDir = None \<and> listBackups fs_no_backupDir = Inr [] \<and>
   backupDir fs_mixed = Some mixed_dir \<and> backupDir_readable fs_mixed \<and>
   distinct (map fst mixed_dir) \<and>
   (\<exists>bs. listBackups fs_mixed = Inr bs \<and> map info_id bs = [''a'', ''d''])"
  using listBackups_skips_bad_entries[of fs_no_backupDir]
    listBackups_skips_bad_entries[of fs_mixed mixed_dir]
    mixed_dir_listed mixed_dir_distinct
  by (simp add: fs_no_backupDir_def fs_mixed_def fs_empty_def)

section \<open>The atomic write\<close>

lemma sweep_frame:
  "sweep cfg cutoff n i bs fs = fs\<lparr>backupDir := backupDir (sweep cfg cutoff n i bs fs)\<rparr>"
proof (induction bs arbitrary: i fs)
  case Nil
  then show ?case by simp
next
  case (Cons b bs)
  show ?case
  proof (cases "before (time_of b) cutoff \<or> int i < int n - int (maxBackups cfg)")
    case False
    then show ?thesis using Cons.IH[of "Suc i" fs] by simp
  next
    case True
    show ?thesis
    proof (cases "unlink_backup (info_id b @ ''.json'') fs")
      case (Inl e)
      then show ?thesis using True by simp
    next
      case (Inr fs')
      then have fs': "fs' = fs\<lparr>backupDir := backupDir fs'\<rparr>"
        by (auto simp: unlink_backup_def split: option.splits if_splits)
      have "sweep cfg cutoff n (Suc i) bs fs' =
            fs'\<lparr>backupDir := backupDir (sweep cfg cutoff n (Suc i) bs fs')\<rparr>"
        by (rule Cons.IH)
      then have "sweep cfg cutoff n (Suc i) bs fs' =
            fs\<lparr>backupDir := backupDir (sweep cfg cutoff n (Suc i) bs fs')\<rparr>"
        by (subst (asm) (2) fs') simp
      then show ?thesis using True Inr by simp
    qed
  qed
qed

lemma cleanOldBackups_frame:
  "cleanOldBackups cfg now fs = fs\<lparr>backupDir := backupDir (cleanOldBackups cfg now fs)\<rparr>"
proof (cases "listBackups fs")
  case (Inl e)
  then show ?thesis by (simp add: cleanOldBackups_def)
next
  case (Inr bs)
  then show ?thesis
    using sweep_frame[of cfg "cutoffDate cfg now" "length bs" 0 "sort_by oldest_first bs" fs]
    by (simp add: cleanOldBackups_def)
qed

lemma cleanOldBackups_dataFile [simp]:
  "dataFile (cleanOldBackups cfg now fs) = dataFile fs"
  by (subst cleanOldBackups_frame) simp

lemma cleanOldBackups_tempFile [simp]:
  "tempFile (cleanOldBackups cfg now fs) = tempFile fs"
  by (subst cleanOldBackups_frame) simp

lemma writeFile_temp_Inr:
  "writeFile_temp now s fs = Inr fs1 \<longleftrightarrow>
     can_write (tempDir_writable fs) (tempFile fs) \<and>
     fs1 = fs\<lparr>tempFile := Some (written_file now s (tempFile fs))\<rparr>"
  by (auto simp: writeFile_temp_def writeFile_def)

lemma writeFile_data_Inr:
  "writeFile_data now s fs = Inr fs1 \<longleftrightarrow>
     can_write (dataDir_writable fs) (dataFile fs) \<and>
     fs1 = fs\<lparr>dataFile := Some (written_file now s (dataFile fs))\<rparr>"
  by (auto simp: writeFile_data_def writeFile_def)

lemma writeFile_backup_Inr:
  "writeFile_backup now name s fs = Inr fs1 \<longleftrightarrow>
     (\<exists>es. backupDir fs = Some es \<and> can_write (backupDir_writable fs) (map_of es name) \<and>
        fs1 = fs\<lparr>backupDir := Some (dir_put es name (written_file now s (map_of es name)))\<rparr>)"
  by (auto simp: writeFile_backup_def writeFile_def split: option.splits)

lemma abort_write_dataFile:
  "abort_write e fs = (r, fs') \<Longrightarrow> dataFile fs' = dataFile fs"
  by (auto simp: abort_write_def unlink_temp_def split: option.splits if_splits)

lemma backup_current_frame:
  "backup_current now name fs = fs\<lparr>backupDir := backupDir (backup_current now name fs)\<rparr>"
  by (auto simp: backup_current_def writeFile_backup_Inr split: sum.splits)

lemma backup_current_dataFile [simp]:
  "dataFile (backup_current now name fs) = dataFile fs"
  by (subst backup_current_frame) simp

lemma backup_current_tempFile [simp]:
  "tempFile (backup_current now name fs) = tempFile fs"
  by (subst backup_current_frame) simp

lemma backup_current_tempDir [simp]:
  "tempDir_writable (backup_current now name fs) = tempDir_writable fs"
  by (subst backup_current_frame) simp

lemma backup_current_dataDir [simp]:
  "dataDir_writable (backup_current now name fs) = dataDir_writable fs"
  by (subst backup_current_frame) simp

text \<open>Whenever \<^verbatim>\<open>saveAtomic\<close> throws, the live document is what it was.\<close>

lemma saveAtomic_error_keeps_live:
  assumes "saveAtomic cfg now data fs = (Inl e, fs')"
  shows "dataFile fs' = dataFile fs"
proof -
  have w: "\<And>s fs1. writeFile_temp now s fs = Inr fs1 \<Longrightarrow> dataFile fs1 = dataFile fs"
    by (simp add: writeFile_temp_Inr)
  show ?thesis
    using assms
    by (auto simp: saveAtomic_def Let_def dest!: abort_write_dataFile w
        split: if_splits sum.splits option.splits)
qed

text \<open>When \<^verbatim>\<open>saveAtomic\<close> succeeds, the staging directory and the data directory could
  be written, the live document is the staging file, renamed: the file that the write of
  the serialized data at \<open>now\<close> left at the staging path; and the staging file is gone.\<close>

lemma saveAtomic_success:
  assumes "saveAtomic cfg now data fs = (Inr u, fs')"
  shows "tempDir_writable fs \<and> dataDir_writable fs \<and>
         dataFile fs' = Some (written_file now (JSON_stringify 2 data) (tempFile fs)) \<and>
         tempFile fs' = None"
proof -
  have a: "\<And>e x r. abort_write e x \<noteq> (Inr r, fs')"
    by (simp add: abort_write_def)
  from assms obtain fs1 fs3 where
    w: "writeFile_temp now (JSON_stringify 2 data) fs = Inr fs1" and
    r: "rename_temp
          (backup_current now (''studioflow-'' @ formatTimestampForFilename now @ ''.json'') fs1)
        = Inr fs3" and
    c: "fs' = cleanOldBackups cfg now fs3"
    by (auto simp: saveAtomic_def Let_def a split: if_splits sum.splits option.splits)
  from w have 1: "tempFile fs1 = Some (written_file now (JSON_stringify 2 data) (tempFile fs))"
    and 2: "tempDir_writable fs1 = tempDir_writable fs" "dataDir_writable fs1 = dataDir_writable fs"
    by (simp_all add: writeFile_temp_Inr)
  from r 1 2 have "tempDir_writable fs \<and> dataDir_writable fs \<and>
      dataFile fs3 = Some (written_file now (JSON_stringify 2 data) (tempFile fs)) \<and>
      tempFile fs3 = None"
    by (auto simp: rename_temp_def split: option.splits if_splits)
  with c show ?thesis by simp
qed

section \<open>Restoring a backup on request\<close>

lemma restoreBackup_promotes:
  assumes "backup_file fs (backupId @ ''.json'') = Some f" "readable f"
    "JSON_parse (content f) = Some data" "validateSchema data"
  shows "restoreBackup cfg now backupId fs =
         (case saveAtomic cfg now data fs of
            (Inl e, fs') \<Rightarrow> (Inl (if e = ENOENT then BackupNotFound backupId else e), fs')
          | (Inr u, fs') \<Rightarrow> (Inr u, fs'))"
  using assms by (simp add: restoreBackup_def restore_body_def readFile_def)

lemma restoreBackup_promotes_Inl:
  assumes "backup_file fs (backupId @ ''.json'') = Some f" "readable f"
    "JSON_parse (content f) = Some data" "validateSchema data"
    "restoreBackup cfg now backupId fs = (Inl e, fs')"
  shows "\<exists>e0. saveAtomic cfg now data fs = (Inl e0, fs')"
proof -
  obtain r0 fs0 where s: "saveAtomic cfg now data fs = (r0, fs0)"
    by (cases "saveAtomic cfg now data fs")
  with assms(5) restoreBackup_promotes[OF assms(1-4), of cfg now] show ?thesis
    by (cases r0) auto
qed

lemma restoreBackup_promotes_Inr:
  assumes "backup_file fs (backupId @ ''.json'') = Some f" "readable f"
    "JSON_parse (content f) = Some data" "validateSchema data"
    "restoreBackup cfg now backupId fs = (Inr u, fs')"
  shows "saveAtomic cfg now data fs = (Inr u, fs')"
proof -
  obtain r0 fs0 where s: "saveAtomic cfg now data fs = (r0, fs0)"
    by (cases "saveAtomic cfg now data fs")
  with assms(5) restoreBackup_promotes[OF assms(1-4), of cfg now] show ?thesis
    by (cases r0) auto
qed

text \<open>
  Claim C7, amended. \<^verbatim>\<open>restoreBackup(id)\<close> fails with the not-found error when the backup
  directory has no file for the identifier, with \<^verbatim>\<open>EACCES\<close> when the file cannot be read,
  and with a structural error when the stored text does not parse (the \<^verbatim>\<open>SyntaxError\<close> of
  \<^verbatim>\<open>JSON.parse\<close>) or parses to a value that is not of the schema (the error "Schema do
  backup invalido"). In these cases nothing in the file system has changed. The checksum
  is not looked at: stored text that parses to a value of the schema goes to the staged
  write, and then, if the call fails, the live document is what it was; if the call
  succeeds, the staging directory and the data directory could be written, the live
  document is the file that the write of the serialized value left at the staging path,
  moved into the live slot, and the staging file is gone. The live file is never written
  in place: whether it can be written plays no part.
\<close>

theorem restoreBackup_outcomes:
  "(backup_file fs (backupId @ ''.json'') = None \<longrightarrow>
      restoreBackup cfg now backupId fs = (Inl (BackupNotFound backupId), fs)) \<and>
   (backup_file fs (backupId @ ''.json'') = Some f \<and> \<not> readable f \<longrightarrow>
      restoreBackup cfg now backupId fs = (Inl EACCES, fs)) \<and>
   (backup_file fs (backupId @ ''.json'') = Some f \<and> readable f \<and>
    JSON_parse (content f) = None \<longrightarrow>
      restoreBackup cfg now backupId fs = (Inl SyntaxError, fs)) \<and>
   (backup_file fs (backupId @ ''.json'') = Some f \<and> readable f \<and>
    JSON_parse (content f) = Some data \<and> \<not> validateSchema data \<longrightarrow>
      restoreBackup cfg now backupId fs = (Inl InvalidBackupSchema, fs)) \<and>
   (backup_file fs (backupId @ ''.json'') = Some f \<and> readable f \<and>
    JSON_parse (content f) = Some data \<and> validateSchema data \<longrightarrow>
      (\<forall>e fs'. restoreBackup cfg now backupId fs = (Inl e, fs') \<longrightarrow> dataFile fs' = dataFile fs) \<and>
      (\<forall>u fs'. restoreBackup cfg now backupId fs = (Inr u, fs') \<longrightarrow>
         tempDir_writable fs \<and> dataDir_writable fs \<and>
         dataFile fs' = Some (written_file now (JSON_stringify 2 data) (tempFile fs)) \<and>
         tempFile fs' = None))"
proof (intro conjI impI allI)
  assume "backup_file fs (backupId @ ''.json'') = None"
  then show "restoreBackup cfg now backupId fs = (Inl (BackupNotFound backupId), fs)"
    by (simp add: restoreBackup_def restore_body_def readFile_def)
next
  assume "backup_file fs (backupId @ ''.json'') = Some f \<and> \<not> readable f"
  then show "restoreBackup cfg now backupId fs = (Inl EACCES, fs)"
    by (simp add: restoreBackup_def restore_body_def readFile_def)
next
  assume "backup_file fs (backupId @ ''.json'') = Some f \<and> readable f \<and>
    JSON_parse (content f) = None"
  then show "restoreBackup cfg now backupId fs = (Inl SyntaxError, fs)"
    by (simp add: restoreBackup_def restore_body_def readFile_def)
next
  assume "backup_file fs (backupId @ ''.json'') = Some f \<and> readable f \<and>
    JSON_parse (content f) = Some data \<and> \<not> validateSchema data"
  then show "restoreBackup cfg now backupId fs = (Inl InvalidBackupSchema, fs)"
    by (simp add: restoreBackup_def restore_body_def readFile_def)
next
  fix e fs'
  assume a: "backup_file fs (backupId @ ''.json'') = Some f \<and> readable f \<and>
    JSON_parse (content f) = Some data \<and> validateSchema data"
    and r: "restoreBackup cfg now backupId fs = (Inl e, fs')"
  then obtain e0 where "saveAtomic cfg now data fs = (Inl e0, fs')"
    using restoreBackup_promotes_Inl[of fs backupId f data cfg now e fs'] by blast
  then show "dataFile fs' = dataFile fs"
    by (rule saveAtomic_error_keeps_live)
next
  fix u fs'
  assume a: "backup_file fs (backupId @ ''.json'') = Some f \<and> readable f \<and>
    JSON_parse (content f) = Some data \<and> validateSchema data"
    and r: "restoreBackup cfg now backupId fs = (Inr u, fs')"
  then have "saveAtomic cfg now data fs = (Inr u, fs')"
    using restoreBackup_promotes_Inr[of fs backupId f data cfg now u fs'] by blast
  then have s: "tempDir_writable fs \<and> dataDir_writable fs \<and>
         dataFile fs' = Some (written_file now (JSON_stringify 2 data) (tempFile fs)) \<and>
         tempFile fs' = None"
    by (rule saveAtomic_success)
  from s show "tempDir_writable fs" by simp
  from s show "dataDir_writable fs" by simp
  from s show "dataFile fs' = Some (written_file now (JSON_stringify 2 data) (tempFile fs))"
    by simp
  from s show "tempFile fs' = None" by simp
qed

lemma parse_example_a:
  "JSON_parse (JSON_stringify 2 (example_doc ''a'')) = Some (example_doc ''a'')"
  by code_simp

lemma example_doc_valid: "validateSchema (example_doc task)"
  by (simp add: validateSchema_def example_doc_def)

lemma parse_brace: "JSON_parse ''{'' = None"
  by code_simp

lemma parse_one: "JSON_parse ''1'' = Some (JNum 1)"
  by code_simp

lemma restore_good_readonly:
  "fst (restoreBackup default_config t0 ''good'' fs_restore_readonly) = Inr ()"
  by code_simp

lemma restore_good_closed:
  "fst (restoreBackup default_config t0 ''good'' fs_restore_closed) = Inl EACCES"
  by code_simp

text \<open>
  The five cases on the example: an identifier with no file, text that does not parse, a
  value outside the schema, a document restored over a live document that is read-only,
  and the same document refused, the live document kept, where the data directory
  cannot be written although the live file can.
\<close>

theorem restoreBackup_outcomes_witness:
  "restoreBackup default_config t0 ''missing'' fs_restore
     = (Inl (BackupNotFound ''missing''), fs_restore) \<and>
   restoreBackup default_config t0 ''bad'' fs_restore = (Inl SyntaxError, fs_restore) \<and>
   restoreBackup default_config t0 ''odd'' fs_restore = (Inl InvalidBackupSchema, fs_restore) \<and>
   map_option writable (dataFile fs_restore_readonly) = Some False \<and>
   fst (restoreBackup default_config t0 ''good'' fs_restore_readonly) = Inr () \<and>
   dataFile (snd (restoreBackup default_config t0 ''good'' fs_restore_readonly))
     = Some (new_file t0 (JSON_stringify 2 (example_doc ''a''))) \<and>
   tempFile (snd (restoreBackup default_config t0 ''good'' fs_restore_readonly)) = None \<and>
   map_option writable (dataFile fs_restore_closed) = Some True \<and>
   fst (restoreBackup default_config t0 ''good'' fs_restore_closed) = Inl EACCES \<and>
   dataFile (snd (restoreBackup default_config t0 ''good'' fs_restore_closed))
     = dataFile fs_restore_closed"
proof -
  let ?bad = "\<lparr>content = ''{'', mtime = t0, readable = True, writable = True\<rparr>"
  let ?odd = "\<lparr>content = ''1'', mtime = t0, readable = True, writable = True\<rparr>"
  let ?good = "\<lparr>content = JSON_stringify 2 (example_doc ''a''), mtime = t0,
                readable = True, writable = True\<rparr>"
  have m: "backup_file fs_restore (''missing'' @ ''.json'') = None"
    by (simp add: backup_file_def fs_restore_def fs_empty_def)
  have b: "backup_file fs_restore (''bad'' @ ''.json'') = Some ?bad"
    by (simp add: backup_file_def fs_restore_def fs_empty_def)
  have od: "backup_file fs_restore (''odd'' @ ''.json'') = Some ?odd"
    by (simp add: backup_file_def fs_restore_def fs_empty_def)
  have g1: "backup_file fs_restore_readonly (''good'' @ ''.json'') = Some ?good"
    by (simp add: backup_file_def fs_restore_readonly_def fs_restore_def fs_empty_def)
  have g2: "backup_file fs_restore_closed (''good'' @ ''.json'') = Some ?good"
    by (simp add: backup_file_def fs_restore_closed_def fs_restore_def fs_empty_def)
  have n: "\<not> validateSchema (JNum 1)"
    by (simp add: validateSchema_def)
  note t = restoreBackup_outcomes[where cfg = default_config and now = t0]
  have 1: "restoreBackup default_config t0 ''missing'' fs_restore
     = (Inl (BackupNotFound ''missing''), fs_restore)"
    using t[where fs = fs_restore and backupId = "''missing''"] m by simp
  have 2: "restoreBackup default_config t0 ''bad'' fs_restore = (Inl SyntaxError, fs_restore)"
    using t[where fs = fs_restore and backupId = "''bad''" and f = ?bad] b parse_brace by simp
  have 3: "restoreBackup default_config t0 ''odd'' fs_restore
             = (Inl InvalidBackupSchema, fs_restore)"
    using t[where fs = fs_restore and backupId = "''odd''" and f = ?odd and data = "JNum 1"]
      od parse_one n by simp
  have c: "content ?good = JSON_stringify 2 (example_doc ''a'')" "readable ?good"
    by simp_all
  have h1: "backup_file fs_restore_readonly (''good'' @ ''.json'') = Some ?good \<and>
    readable ?good \<and> JSON_parse (content ?good) = Some (example_doc ''a'') \<and>
    validateSchema (example_doc ''a'')"
    using g1 parse_example_a example_doc_valid c by (simp only:)
  have h2: "backup_file fs_restore_closed (''good'' @ ''.json'') = Some ?good \<and>
    readable ?good \<and> JSON_parse (content ?good) = Some (example_doc ''a'') \<and>
    validateSchema (example_doc ''a'')"
    using g2 parse_example_a example_doc_valid c by (simp only:)
  have 4: "\<forall>u fs'. restoreBackup default_config t0 ''good'' fs_restore_readonly = (Inr u, fs') \<longrightarrow>
         dataFile fs' = Some (written_file t0 (JSON_stringify 2 (example_doc ''a''))
                                (tempFile fs_restore_readonly)) \<and>
         tempFile fs' = None"
    using t[where fs = fs_restore_readonly and backupId = "''good''" and f = ?good
        and data = "example_doc ''a''"] h1
    by blast
  have 5: "\<forall>e fs'. restoreBackup default_config t0 ''good'' fs_restore_closed = (Inl e, fs') \<longrightarrow>
         dataFile fs' = dataFile fs_restore_closed"
    using t[where fs = fs_restore_closed and backupId = "''good''" and f = ?good
        and data = "example_doc ''a''"] h2
    by blast
  obtain r1 fs1 where s1: "restoreBackup default_config t0 ''good'' fs_restore_readonly = (r1, fs1)"
    by (cases "restoreBackup default_config t0 ''good'' fs_restore_readonly")
  with restore_good_readonly have "r1 = Inr ()" by simp
  with s1 4 have 6: "dataFile fs1 = Some (written_file t0 (JSON_stringify 2 (example_doc ''a''))
                                (tempFile fs_restore_readonly)) \<and> tempFile fs1 = None"
    by blast
  have "tempFile fs_restore_readonly = None"
    by (simp add: fs_restore_readonly_def fs_restore_def fs_empty_def)
  with 6 have 7: "dataFile fs1 = Some (new_file t0 (JSON_stringify 2 (example_doc ''a'')))"
    "tempFile fs1 = None"
    by (simp_all add: written_file_def)
  obtain r2 fs2 where s2: "restoreBackup default_config t0 ''good'' fs_restore_closed = (r2, fs2)"
    by (cases "restoreBackup default_config t0 ''good'' fs_restore_closed")
  with restore_good_closed have "r2 = Inl EACCES" by simp
  with s2 5 have 8: "dataFile fs2 = dataFile fs_restore_closed" by blast
  have 9: "map_option writable (dataFile fs_restore_readonly) = Some False"
    "map_option writable (dataFile fs_restore_closed) = Some True"
    by (simp_all add: fs_restore_readonly_def fs_restore_closed_def fs_restore_def)
  show ?thesis
    using 1 2 3 9 restore_good_readonly restore_good_closed s1 s2 7 8 by simp
qed

lemma tampered_differs: "tampered_text \<noteq> JSON_stringify 2 (sealed_doc ''q'')"
  by code_simp

lemma tampered_checks:
  "map_option (\<lambda>d. (validateSchema d, validateChecksum None d)) (JSON_parse tampered_text)
     = Some (True, False)"
  by code_simp

lemma tampered_restored:
  "fst (restoreBackup default_config (t0 + 1000) ''backup-1'' fs_tampered) = Inr () \<and>
   map_option content
     (dataFile (snd (restoreBackup default_config (t0 + 1000) ''backup-1'' fs_tampered)))
     = Some tampered_text"
  by code_simp

text \<open>The claim as stated fails for a snapshot whose bytes are corrupt but still parse to
  a value of the schema: one byte of the stored text has changed, the checksum in it no
  longer matches, and \<^verbatim>\<open>restoreBackup\<close> succeeds and makes that text the live document.\<close>

theorem restoreBackup_promotes_corrupted_snapshot:
  "backup_file fs_tampered ''backup-1.json''
     = Some \<lparr>content = tampered_text, mtime = t0, readable = True, writable = True\<rparr> \<and>
   tampered_text \<noteq> JSON_stringify 2 (sealed_doc ''q'') \<and>
   map_option (validateChecksum None) (JSON_parse tampered_text) = Some False \<and>
   fst (restoreBackup default_config (t0 + 1000) ''backup-1'' fs_tampered) = Inr () \<and>
   map_option content
     (dataFile (snd (restoreBackup default_config (t0 + 1000) ''backup-1'' fs_tampered)))
     = Some tampered_text"
proof -
  have "backup_file fs_tampered ''backup-1.json''
     = Some \<lparr>content = tampered_text, mtime = t0, readable = True, writable = True\<rparr>"
    by (simp add: backup_file_def fs_tampered_def fs_empty_def)
  moreover have "map_option (validateChecksum None) (JSON_parse tampered_text) = Some False"
    using tampered_checks by (cases "JSON_parse tampered_text") auto
  ultimately show ?thesis
    using tampered_differs tampered_restored by simp
qed

section \<open>Sorting with a comparator\<close>

lemma sort_by_Nil [simp]: "sort_by cmp [] = []"
  by (simp add: sort_by_def)

lemma sort_by_Cons [simp]: "sort_by cmp (x # xs) = insert_by cmp x (sort_by cmp xs)"
  by (simp add: sort_by_def)

lemma set_insert_by [simp]: "set (insert_by cmp x ys) = insert x (set ys)"
  by (induction ys) auto

lemma set_sort_by [simp]: "set (sort_by cmp xs) = set xs"
  by (induction xs) auto

lemma length_insert_by [simp]: "length (insert_by cmp x ys) = Suc (length ys)"
  by (induction ys) auto

lemma length_sort_by [simp]: "length (sort_by cmp xs) = length xs"
  by (induction xs) auto

lemma distinct_insert_by [simp]: "distinct (insert_by cmp x ys) = (x \<notin> set ys \<and> distinct ys)"
  by (induction ys) auto

lemma distinct_sort_by [simp]: "distinct (sort_by cmp xs) = distinct xs"
  by (induction xs) auto








section \<open>Loading and recovery\<close>

lemma restore_loop_skip:
  "\<not> verifies subtle fs x \<Longrightarrow>
   restore_loop subtle now (x # rest) fs = restore_loop subtle now rest fs"
  by (auto simp: verifies_def verified_text_def split: sum.splits option.splits)

lemma restore_loop_none:
  "list_all (\<lambda>b. \<not> verifies subtle fs b) bs \<Longrightarrow> restore_loop subtle now bs fs = (None, fs)"
  by (induction bs) (simp_all add: restore_loop_skip del: restore_loop.simps(2))





lemma load_absent: "dataFile fs = None \<Longrightarrow> load subtle now fs = (Inr None, fs)"
  by (simp add: load_def load_failed_def readFile_def)

lemma tryRestore_listed:
  assumes "listBackups fs = Inr bs"
  shows "tryRestoreFromBackup subtle now fs =
         (case restore_loop subtle now (sort_by newest_first bs) fs of (r, fs') \<Rightarrow> (Inr r, fs'))"
  using assms by (cases bs) (simp_all add: tryRestoreFromBackup_def del: sort_by_Cons)

lemma load_live_fails:
  assumes "live_fails subtle fs" "listBackups fs = Inr bs"
  shows "load subtle now fs =
         (case restore_loop subtle now (sort_by newest_first bs) fs of (r, fs') \<Rightarrow> (Inr r, fs'))"
proof -
  note t = tryRestore_listed[OF assms(2), of subtle now]
  obtain r fs' where rl: "restore_loop subtle now (sort_by newest_first bs) fs = (r, fs')"
    by (cases "restore_loop subtle now (sort_by newest_first bs) fs")
  from assms(1) show ?thesis
    by (auto simp: load_def load_failed_def live_fails_def verified_text_def readFile_def t rl
        split: option.splits if_splits)
qed


lemma verified_sealed_a: "verified_text None (JSON_stringify 2 (sealed_doc ''a''))"
  by code_simp

lemma parse_sealed_a: "JSON_parse (JSON_stringify 2 (sealed_doc ''a'')) = Some (sealed_doc ''a'')"
  by code_simp








text \<open>
  Claim C6, amended. \<^verbatim>\<open>load\<close> has one empty outcome, not two: it returns \<^verbatim>\<open>null\<close>, and
  leaves the file system as it is, both when the live document is absent and when the
  live document fails and no listed backup verifies. The caller cannot tell the two
  apart by the result.
\<close>

theorem load_null_on_first_run_and_on_exhaustion:
  "(dataFile fs = None \<longrightarrow> load subtle now fs = (Inr None, fs)) \<and>
   (live_fails subtle fs \<and> listBackups fs = Inr bs \<and>
    list_all (\<lambda>b. \<not> verifies subtle fs b) bs \<longrightarrow>
      load subtle now fs = (Inr None, fs))"
proof (intro conjI impI)
  assume "dataFile fs = None"
  then show "load subtle now fs = (Inr None, fs)" by (rule load_absent)
next
  assume a: "live_fails subtle fs \<and> listBackups fs = Inr bs \<and>
    list_all (\<lambda>b. \<not> verifies subtle fs b) bs"
  then have "list_all (\<lambda>b. \<not> verifies subtle fs b) (sort_by newest_first bs)"
    by (simp add: list_all_iff)
  then have "restore_loop subtle now (sort_by newest_first bs) fs = (None, fs)"
    by (rule restore_loop_none)
  moreover from a have "load subtle now fs =
         (case restore_loop subtle now (sort_by newest_first bs) fs of (r, fs') \<Rightarrow> (Inr r, fs'))"
    by (intro load_live_fails) auto
  ultimately show "load subtle now fs = (Inr None, fs)" by simp
qed

lemma live_fails_exhausted: "live_fails None fs_exhausted"
  by code_simp

lemma listBackups_exhausted:
  "listBackups fs_exhausted = Inr (collect_backups fs_exhausted [''studioflow-1.json''])"
  by (simp add: listBackups_def readdir_backups_def fs_exhausted_def fs_empty_def)

lemma exhausted_none_verifies:
  "list_all (\<lambda>b. \<not> verifies None fs_exhausted b)
     (collect_backups fs_exhausted [''studioflow-1.json''])"
  by code_simp

theorem load_null_on_first_run_and_on_exhaustion_witness:
  "dataFile fs_empty = None \<and> load None (t0 + 4000) fs_empty = (Inr None, fs_empty) \<and>
   live_fails None fs_exhausted \<and>
   load None (t0 + 4000) fs_exhausted = (Inr None, fs_exhausted)"
  using load_null_on_first_run_and_on_exhaustion[where fs = fs_empty and subtle = None
      and now = "t0 + 4000"]
    load_null_on_first_run_and_on_exhaustion[where fs = fs_exhausted and subtle = None
      and now = "t0 + 4000" and bs = "collect_backups fs_exhausted [''studioflow-1.json'']"]
    live_fails_exhausted listBackups_exhausted exhausted_none_verifies
  by (simp add: fs_empty_def)

text \<open>The claim as stated fails: on a first run and after an exhausted recovery \<^verbatim>\<open>load\<close>
  gives the caller the same result.\<close>

theorem load_results_coincide:
  "fst (load None (t0 + 4000) fs_empty) = fst (load None (t0 + 4000) fs_exhausted)"
  by code_simp

section \<open>Loading a sound document, and creating a backup on request\<close>

lemma load_ok:
  assumes "dataFile fs = Some f" "readable f" "JSON_parse (content f) = Some data"
    "validateSchema data" "validateChecksum subtle data"
  shows "load subtle now fs = (Inr (Some data), fs)"
  using assms by (simp add: load_def readFile_def)

text \<open>
  A live document that can be read, parses, is of the schema and carries the checksum of
  its own content is what \<^verbatim>\<open>load\<close> returns, and \<^verbatim>\<open>load\<close> changes nothing in the file system.
\<close>

theorem load_returns_verified_live:
  "dataFile fs = Some f \<and> readable f \<and> JSON_parse (content f) = Some data \<and>
   validateSchema data \<and> validateChecksum subtle data \<longrightarrow>
     load subtle now fs = (Inr (Some data), fs)"
  using load_ok[of fs f data subtle now] by blast

lemma with_metadata_JObj:
  "map_of kvs ''metadata'' = Some (JObj m) \<Longrightarrow>
   with_metadata (JObj kvs) k v = JObj (obj_set kvs ''metadata'' (JObj (obj_set m k v)))"
  by (simp add: with_metadata_def)

lemma map_of_obj_set:
  "map_of (obj_set kvs k v) k' = (if k' = k then Some v else map_of kvs k')"
  by (induction kvs) auto






lemma createBackup_example:
  "createBackup None default_config (t0 + 1000) fs_live =
     (Inr ''backup-2024-01-15-10-30-01'',
      fs_live\<lparr>backupDir := Some
        [(''backup-2024-01-15-10-30-01.json'',
          new_file (t0 + 1000)
            (JSON_stringify 2
              (with_metadata (sealed_doc ''a'') ''lastBackup'' (JStr ''2024-01-15T10:30:01.000Z''))))]\<rparr>)"
  by code_simp


lemma snapshot_checks:
  "map_option (\<lambda>d. (validateSchema d, validateChecksum None d))
     (JSON_parse (JSON_stringify 2
        (with_metadata (sealed_doc ''a'') ''lastBackup'' (JStr ''2024-01-15T10:30:01.000Z''))))
   = Some (True, False)"
  by code_simp


lemma sealed_a_checks: "validateSchema (sealed_doc ''a'') \<and> validateChecksum None (sealed_doc ''a'')"
  using verified_sealed_a by (simp add: verified_text_def parse_sealed_a)

theorem load_returns_verified_live_witness:
  "dataFile fs_live
     = Some \<lparr>content = JSON_stringify 2 (sealed_doc ''a''), mtime = t0, readable = True, writable = True\<rparr> \<and>
   JSON_parse (JSON_stringify 2 (sealed_doc ''a'')) = Some (sealed_doc ''a'') \<and>
   validateSchema (sealed_doc ''a'') \<and> validateChecksum None (sealed_doc ''a'') \<and>
   load None (t0 + 1000) fs_live = (Inr (Some (sealed_doc ''a'')), fs_live)"
  using load_returns_verified_live[where fs = fs_live and subtle = None and now = "t0 + 1000"
      and data = "sealed_doc ''a''"
      and f = "\<lparr>content = JSON_stringify 2 (sealed_doc ''a''), mtime = t0, readable = True, writable = True\<rparr>"]
    parse_sealed_a sealed_a_checks
  by (simp add: fs_live_def fs_empty_def)




text \<open>
  Claim C5 does not hold of the code. The live document here carries the checksum of its
  own content. \<^verbatim>\<open>createBackup\<close> loads it, sets \<^verbatim>\<open>metadata.lastBackup\<close> and stores the result
  with the checksum it had before: the stored snapshot fails \<^verbatim>\<open>validateChecksum\<close>. The
  sibling \<^verbatim>\<open>save\<close> refreshes the checksum after it sets \<^verbatim>\<open>lastSync\<close>.
\<close>

theorem createBackup_stores_stale_checksum:
  "map_option (\<lambda>f. verified_text None (content f)) (dataFile fs_live) = Some True \<and>
   fst (createBackup None default_config (t0 + 1000) fs_live) = Inr ''backup-2024-01-15-10-30-01'' \<and>
   map_option (\<lambda>f. map_option (validateChecksum None) (JSON_parse (content f)))
     (backup_file (snd (createBackup None default_config (t0 + 1000) fs_live))
        ''backup-2024-01-15-10-30-01.json'')
   = Some (Some False)"
  using createBackup_example snapshot_checks verified_sealed_a
  by (auto simp: backup_file_def fs_live_def fs_empty_def new_file_def)

subsection \<open>The stale checksum, for every digest\<close>

lemma sealed_a_shape:
  "(case sealed_doc ''a'' of
      JObj kvs \<Rightarrow> (case map_of kvs ''metadata'' of Some (JObj m) \<Rightarrow> True | _ \<Rightarrow> False)
    | _ \<Rightarrow> False)"
  by code_simp

text \<open>
  The step of \<^verbatim>\<open>createBackup\<close> that sets \<^verbatim>\<open>metadata.lastBackup\<close> leaves the stored checksum
  as it was, whatever the digest function: on a document that verifies, the result
  verifies only if the digest of the stamped content collides with the digest of the
  content before.
\<close>

theorem createBackup_keeps_old_checksum:
  "data = JObj kvs \<and> map_of kvs ''metadata'' = Some (JObj m) \<and> validateChecksum subtle data \<longrightarrow>
     opt_prop (get_prop (with_metadata data ''lastBackup'' v) ''metadata'') ''checksum''
       = opt_prop (get_prop data ''metadata'') ''checksum'' \<and>
     (validateChecksum subtle (with_metadata data ''lastBackup'' v) \<longleftrightarrow>
        calculateChecksum subtle
          (with_metadata (with_metadata data ''lastBackup'' v) ''checksum'' (JStr []))
        = calculateChecksum subtle (with_metadata data ''checksum'' (JStr [])))"
proof (intro impI)
  assume a: "data = JObj kvs \<and> map_of kvs ''metadata'' = Some (JObj m) \<and> validateChecksum subtle data"
  let ?b = "with_metadata data ''lastBackup'' v"
  from a have b: "?b = JObj (obj_set kvs ''metadata'' (JObj (obj_set m ''lastBackup'' v)))"
    by (simp add: with_metadata_JObj)
  have c: "opt_prop (get_prop ?b ''metadata'') ''checksum'' = map_of m ''checksum''"
    by (simp add: b map_of_obj_set)
  from a have d: "opt_prop (get_prop data ''metadata'') ''checksum'' = map_of m ''checksum''"
    by simp
  from a d have e: "map_of m ''checksum''
      = Some (JStr (calculateChecksum subtle (with_metadata data ''checksum'' (JStr []))))"
    by (simp add: validateChecksum_def Let_def)
  have "validateChecksum subtle ?b \<longleftrightarrow>
        calculateChecksum subtle (with_metadata ?b ''checksum'' (JStr []))
        = calculateChecksum subtle (with_metadata data ''checksum'' (JStr []))"
    unfolding validateChecksum_def Let_def c e by auto
  with c d show "opt_prop (get_prop ?b ''metadata'') ''checksum''
       = opt_prop (get_prop data ''metadata'') ''checksum'' \<and>
     (validateChecksum subtle ?b \<longleftrightarrow>
        calculateChecksum subtle (with_metadata ?b ''checksum'' (JStr []))
        = calculateChecksum subtle (with_metadata data ''checksum'' (JStr [])))"
    by simp
qed

theorem createBackup_keeps_old_checksum_witness:
  "validateChecksum None (sealed_doc ''a'') \<and>
   opt_prop (get_prop (with_metadata (sealed_doc ''a'') ''lastBackup''
               (JStr ''2024-01-15T10:30:01.000Z'')) ''metadata'') ''checksum''
     = opt_prop (get_prop (sealed_doc ''a'') ''metadata'') ''checksum''"
proof -
  from sealed_a_shape obtain kvs where k: "sealed_doc ''a'' = JObj kvs"
    by (cases "sealed_doc ''a''") auto
  from sealed_a_shape k obtain j where j: "map_of kvs ''metadata'' = Some j"
    by (cases "map_of kvs ''metadata''") auto
  from sealed_a_shape k j obtain m where m: "j = JObj m"
    by (cases j) auto
  from k j m have s: "sealed_doc ''a'' = JObj kvs" "map_of kvs ''metadata'' = Some (JObj m)"
    by simp_all
  from createBackup_keeps_old_checksum[where data = "sealed_doc ''a''" and kvs = kvs and m = m
      and subtle = None and v = "JStr ''2024-01-15T10:30:01.000Z''"] s sealed_a_checks
  show ?thesis by simp
qed

section \<open>The retention sweep\<close>






















section \<open>The write queue and the failures of the atomic write\<close>

lemma two_saves_queue:
  "save (example_doc ''b'') (save (example_doc ''a'') (new_storage default_config fs_empty))
     = queued_two"
  by (simp add: save_def processQueue_def next_operation_def new_storage_def queued_two_def)

lemma first_timer: "timer_fires None (t0 + 500) queued_two = (Some (Inr ()), after_first)"
  by code_simp

lemma second_timer: "timer_fires None (t0 + 1000) after_first = (Some (Inr ()), after_second)"
  by code_simp

lemma written_differ: "written ''a'' (t0 + 500) \<noteq> written ''b'' (t0 + 1000)"
  by code_simp

text \<open>
  Claim C2 does not hold of the code. Two calls of \<^verbatim>\<open>save\<close>, the second right after the
  first and so well inside one debounce window, queue two operations. Each waits its own
  delay and then writes its own document: the first timer persists the first document,
  the second timer the second one, with the first as its pre-write backup. Two writes
  reach the storage, not one, and the earlier argument is written.
\<close>

theorem save_twice_writes_twice:
  "save (example_doc ''b'') (save (example_doc ''a'') (new_storage default_config fs_empty))
     = queued_two \<and>
   timer_fires None (t0 + 500) queued_two = (Some (Inr ()), after_first) \<and>
   timer_fires None (t0 + 1000) after_first = (Some (Inr ()), after_second) \<and>
   map_option content (dataFile (files after_first)) = Some (written ''a'' (t0 + 500)) \<and>
   map_option content (dataFile (files after_second)) = Some (written ''b'' (t0 + 1000)) \<and>
   written ''a'' (t0 + 500) \<noteq> written ''b'' (t0 + 1000)"
  using two_saves_queue first_timer second_timer written_differ
  by (simp add: after_first_def after_second_def new_file_def fs_empty_def)

text \<open>
  Claim C1 does not hold of the code for a failed backup copy. The live document is
  there and the backup directory cannot be written, so the copy of step 4 fails; the
  \<^verbatim>\<open>catch\<close> of that step swallows the error, the rename goes ahead, and \<^verbatim>\<open>saveAtomic\<close>
  returns normally with the live document replaced and no backup made.
\<close>

theorem saveAtomic_ignores_backup_failure:
  "map_option content (dataFile fs_guarded) = Some (JSON_stringify 2 (sealed_doc ''a'')) \<and>
   writeFile_backup (t0 + 1000) ''studioflow-2024-01-15-10-30-01.json''
     (JSON_stringify 2 (sealed_doc ''a'')) fs_guarded = Inl EACCES \<and>
   saveAtomic default_config (t0 + 1000) (example_doc ''b'') fs_guarded =
     (Inr (),
      fs_guarded\<lparr>dataFile := Some (new_file (t0 + 1000) (JSON_stringify 2 (example_doc ''b'')))\<rparr>) \<and>
   backupDir fs_guarded = Some []"
  by code_simp

lemma abort_write_tempFile:
  "tempDir_writable fs \<Longrightarrow> abort_write e fs = (r, fs') \<Longrightarrow> tempFile fs' = None"
  by (auto simp: abort_write_def unlink_temp_def split: option.splits)

text \<open>
  What does hold of a failed atomic write: whenever \<^verbatim>\<open>saveAtomic\<close> throws, whatever the
  step that failed, the live document is what it was before the call, and where the
  staging directory can be written no staging file is left.
\<close>

theorem saveAtomic_failure_keeps_live:
  "saveAtomic cfg now data fs = (Inl e, fs') \<longrightarrow>
     dataFile fs' = dataFile fs \<and> (tempDir_writable fs \<longrightarrow> tempFile fs' = None)"
proof (intro impI conjI)
  assume "saveAtomic cfg now data fs = (Inl e, fs')"
  then show "dataFile fs' = dataFile fs" by (rule saveAtomic_error_keeps_live)
next
  assume s: "saveAtomic cfg now data fs = (Inl e, fs')" and w: "tempDir_writable fs"
  have w1: "\<And>s fs1. writeFile_temp now s fs = Inr fs1 \<Longrightarrow> tempDir_writable fs1"
    using w by (simp add: writeFile_temp_Inr)
  show "tempFile fs' = None"
    using s w
    by (auto simp: saveAtomic_def Let_def split: if_splits sum.splits option.splits
        dest: abort_write_tempFile[rotated] dest!: w1)
qed

theorem saveAtomic_failure_keeps_live_witness:
  "saveAtomic default_config t0 (JNum 1) fs_live = (Inl InvalidData, fs_live) \<and>
   tempDir_writable fs_live \<and> tempFile fs_live = None"
  using saveAtomic_failure_keeps_live[where cfg = default_config and now = t0
      and data = "JNum 1" and fs = fs_live and e = InvalidData and fs' = fs_live]
  by (simp add: saveAtomic_def validateSchema_def abort_write_def unlink_temp_def
      fs_live_def fs_empty_def)

lemma one_save: "save (example_doc ''a'') (new_storage default_config fs_empty) = saved_once"
  by (simp add: save_def processQueue_def next_operation_def new_storage_def saved_once_def)

lemma flush_idle: "writeQueue st = [] \<Longrightarrow> flush subtle now st = Some st"
  by (subst flush.simps) simp


lemma flush_spins:
  assumes "isProcessing st" "writeQueue st \<noteq> []"
  shows "flush subtle now st = None"
proof (rule ccontr)
  assume "flush subtle now st \<noteq> None"
  then obtain y where y: "flush subtle now st = Some y" by auto
  have "\<not> (isProcessing st \<and> writeQueue st \<noteq> [])"
  proof (rule flush.raw_induct[where P = "\<lambda>subtle now st y. \<not> (isProcessing st \<and> writeQueue st \<noteq> [])",
        OF _ y])
    fix f :: "subtle \<Rightarrow> int \<Rightarrow> NodeStorage \<Rightarrow> NodeStorage option"
      and subtle now st y
    assume IH: "\<And>subtle now st y. f subtle now st = Some y
                  \<Longrightarrow> \<not> (isProcessing st \<and> writeQueue st \<noteq> [])"
      and step: "(if writeQueue st \<noteq> [] then f subtle now (await_processQueue subtle now st)
                  else Some st) = Some y"
    show "\<not> (isProcessing st \<and> writeQueue st \<noteq> [])"
    proof
      assume b: "isProcessing st \<and> writeQueue st \<noteq> []"
      then have "await_processQueue subtle now st = st"
        by (simp add: await_processQueue_def)
      with step b have "f subtle now st = Some y" by simp
      from IH[OF this] b show False by simp
    qed
  qed
  with assms show False by simp
qed


text \<open>
  Claim C8 does not hold of the code. After one \<^verbatim>\<open>save\<close> the operation is running and the
  queue is empty, so \<^verbatim>\<open>flush\<close> finds nothing to wait for: it resolves at once, the timer
  still pending and nothing persisted. With a second operation queued behind the running
  one, \<^verbatim>\<open>flush\<close> never resolves: \<^verbatim>\<open>processQueue\<close> returns at once while the queue is
  being processed, and the loop of \<^verbatim>\<open>flush\<close> turns without end.
\<close>

theorem flush_does_not_persist:
  "save (example_doc ''a'') (new_storage default_config fs_empty) = saved_once \<and>
   running saved_once = Some (example_doc ''a'') \<and>
   flush None t0 saved_once = Some saved_once \<and>
   dataFile (files saved_once) = None \<and>
   flush None t0 queued_two = None"
  using one_save flush_idle[of saved_once None t0] flush_spins[of queued_two None t0]
  by (simp add: saved_once_def queued_two_def fs_empty_def)

end
